theory Spec2Isabelle
  imports Main
begin

section \<open>Data model of create\_builder.go\<close>

text \<open>
  A Go \<^verbatim>\<open>error\<close> is represented by its message (what \<^verbatim>\<open>%s\<close> prints), a Go
  string by a list of bytes, an interface value that may be \<^verbatim>\<open>nil\<close> by an option,
  and an \<^verbatim>\<open>*os.File\<close> by its descriptor number.
\<close>

type_synonym err = string
type_synonym os_File = nat

text \<open>\<^verbatim>\<open>config.Stack\<close>, as far as \<^verbatim>\<open>baseImageName\<close> reads it.\<close>

record Stack =
  ID :: string
  BuildImages :: "string list"

record CreateBuilderFlags =
  RepoName :: string
  BuilderTomlPath :: string
  StackID :: string
  Publish :: bool
  NoPull :: bool

record Buildpack =
  ID :: string
  URI :: string

text \<open>The anonymous struct \<^verbatim>\<open>data.BP\<close> that \<^verbatim>\<open>buildpackLayer\<close> decodes buildpack.toml into.\<close>

record BP =
  ID :: string
  Version :: string

text \<open>
  \<^verbatim>\<open>lifecycle.BuildpackGroup\<close> is declared outside this file and only passed through,
  so it is the type parameter \<open>'grp\<close>; \<open>'img\<close> stands for the non-nil values of
  \<^verbatim>\<open>v1.Image\<close> and \<open>'repo\<close> for those of \<^verbatim>\<open>img.Store\<close>.
\<close>

record ('img, 'repo, 'grp) BuilderConfig =
  RepoName :: string
  Repo :: "'repo option"
  Buildpacks :: "Buildpack list"
  Groups :: "'grp list"
  BaseImage :: "'img option"
  BuilderDir :: string

section \<open>Collaborators and the record of their calls\<close>

text \<open>
  Every call that leaves the file (operating system, TOML library, archive packager,
  image library, repository store, daemon, logger) is recorded with its arguments and
  its result, in the order in which the calls happen.
\<close>

datatype ('img, 'repo) event =
    TempDirCall string string "err + string"
  | RemoveCall string "err option"
  | MkdirCall string nat "err option"
  | OsCreateCall string "err + os_File"
  | FileCloseCall os_File "err option"
  | FileWriteCall os_File string "err option"
  | CreateTGZFileCall string string string int int "err option"
  | DecodeFileCall string "err + BP"
  | AppendCall "'img option" string "err + 'img option"
  | RepoWriteCall 'repo "'img option" "err option"
  | PrintlnCall "string list"
  | PullImageCall string "err option"
  | DecodeBuilderCall string "err option"
  | ReadImageCall string bool "err + 'img option"
  | RepoStoreCall string bool "err + 'repo option"

fun is_AppendCall :: "('img, 'repo) event \<Rightarrow> bool" where
  "is_AppendCall (AppendCall _ _ _) = True"
| "is_AppendCall _ = False"

fun is_RepoWriteCall :: "('img, 'repo) event \<Rightarrow> bool" where
  "is_RepoWriteCall (RepoWriteCall _ _ _) = True"
| "is_RepoWriteCall _ = False"

fun is_CreateTGZFileCall :: "('img, 'repo) event \<Rightarrow> bool" where
  "is_CreateTGZFileCall (CreateTGZFileCall _ _ _ _ _ _) = True"
| "is_CreateTGZFileCall _ = False"

fun is_DecodeFileCall :: "('img, 'repo) event \<Rightarrow> bool" where
  "is_DecodeFileCall (DecodeFileCall _ _) = True"
| "is_DecodeFileCall _ = False"

fun is_PrintlnCall :: "('img, 'repo) event \<Rightarrow> bool" where
  "is_PrintlnCall (PrintlnCall _) = True"
| "is_PrintlnCall _ = False"

fun is_PullImageCall :: "('img, 'repo) event \<Rightarrow> bool" where
  "is_PullImageCall (PullImageCall _ _) = True"
| "is_PullImageCall _ = False"

fun is_RemoveCall :: "('img, 'repo) event \<Rightarrow> bool" where
  "is_RemoveCall (RemoveCall _ _) = True"
| "is_RemoveCall _ = False"

fun is_FileWriteCall :: "('img, 'repo) event \<Rightarrow> bool" where
  "is_FileWriteCall (FileWriteCall _ _ _) = True"
| "is_FileWriteCall _ = False"

text \<open>
  The collaborators are parameters of the model: \<open>'w\<close> is the state of everything
  outside the program (file system, daemon, registry, log), and each operation maps
  that state to its result and the next state. \<^verbatim>\<open>filepath.Join\<close> and
  \<^verbatim>\<open>filepath.Dir\<close> are pure. \<^verbatim>\<open>toml.NewEncoder(w).Encode(v)\<close> is the serialisation
  of \<open>v\<close> (\<open>toml_Marshal\<close>) followed by the write of the bytes to \<open>w\<close>
  (\<open>File_Write\<close>).
\<close>

record ('w, 'img, 'repo, 'grp) env =
  filepath_Join :: "string list \<Rightarrow> string"
  filepath_Dir :: "string \<Rightarrow> string"
  ioutil_TempDir :: "string \<Rightarrow> string \<Rightarrow> 'w \<Rightarrow> (err + string) \<times> 'w"
  os_Remove :: "string \<Rightarrow> 'w \<Rightarrow> err option \<times> 'w"
  os_Mkdir :: "string \<Rightarrow> nat \<Rightarrow> 'w \<Rightarrow> err option \<times> 'w"
  os_Create :: "string \<Rightarrow> 'w \<Rightarrow> (err + os_File) \<times> 'w"
  File_Close :: "os_File \<Rightarrow> 'w \<Rightarrow> err option \<times> 'w"
  File_Write :: "os_File \<Rightarrow> string \<Rightarrow> 'w \<Rightarrow> err option \<times> 'w"
  toml_Marshal :: "'grp list \<Rightarrow> err + string"
  toml_DecodeFile_BP :: "string \<Rightarrow> 'w \<Rightarrow> (err + BP) \<times> 'w"
  toml_DecodeFile_Builder ::
    "string \<Rightarrow> ('img, 'repo, 'grp) BuilderConfig \<Rightarrow> 'w
      \<Rightarrow> (err + ('img, 'repo, 'grp) BuilderConfig) \<times> 'w"
  FS_CreateTGZFile :: "string \<Rightarrow> string \<Rightarrow> string \<Rightarrow> int \<Rightarrow> int \<Rightarrow> 'w \<Rightarrow> err option \<times> 'w"
  img_Append :: "'img option \<Rightarrow> string \<Rightarrow> 'w \<Rightarrow> (err + 'img option) \<times> 'w"
  Store_Write :: "'repo \<Rightarrow> 'img option \<Rightarrow> 'w \<Rightarrow> err option \<times> 'w"
  Log_Println :: "string list \<Rightarrow> 'w \<Rightarrow> 'w"
  Docker_PullImage :: "string \<Rightarrow> 'w \<Rightarrow> err option \<times> 'w"
  Images_ReadImage :: "string \<Rightarrow> bool \<Rightarrow> 'w \<Rightarrow> (err + 'img option) \<times> 'w"
  Images_RepoStore :: "string \<Rightarrow> bool \<Rightarrow> 'w \<Rightarrow> (err + 'repo option) \<times> 'w"
  Config_Get :: "string \<Rightarrow> err + Stack"
  config_Registry :: "string \<Rightarrow> err + string"
  config_ImageByRegistry :: "string \<Rightarrow> string list \<Rightarrow> err + string"

record ('w, 'ev) machine =
  world :: 'w
  trace :: "'ev list"

text \<open>One collaborator call: run it on the outside state and record it with its result.\<close>

definition call ::
  "('w \<Rightarrow> 'r \<times> 'w) \<Rightarrow> ('r \<Rightarrow> 'ev) \<Rightarrow> ('w, 'ev) machine \<Rightarrow> 'r \<times> ('w, 'ev) machine" where
  "call f ev s =
     (case f (world s) of (r, w') \<Rightarrow> (r, \<lparr>world = w', trace = trace s @ [ev r]\<rparr>))"

text \<open>The calls made between two states of one run.\<close>

definition events_since :: "('w, 'ev) machine \<Rightarrow> ('w, 'ev) machine \<Rightarrow> 'ev list" where
  "events_since s s' = drop (length (trace s)) (trace s')"

section \<open>String helpers of the Go library (Unix)\<close>

definition dquote :: string where
  "dquote = [CHR 0x22]"

definition HasPrefix :: "string \<Rightarrow> string \<Rightarrow> bool" where
  "HasPrefix s p = (length p \<le> length s \<and> take (length p) s = p)"

definition TrimPrefix :: "string \<Rightarrow> string \<Rightarrow> string" where
  "TrimPrefix s p = (if HasPrefix s p then drop (length p) s else s)"

definition IsAbs :: "string \<Rightarrow> bool" where
  "IsAbs p = (case p of [] \<Rightarrow> False | c # _ \<Rightarrow> c = CHR ''/'')"

section \<open>buildpackLayer\<close>

text \<open>Lines 192-195: the directory a buildpack URI stands for.\<close>

definition buildpackLayer_dir ::
  "('w, 'img, 'repo, 'grp) env \<Rightarrow> string \<Rightarrow> string \<Rightarrow> string" where
  "buildpackLayer_dir env uri builderDir =
     (let dir = TrimPrefix uri ''file://''
      in if \<not> IsAbs dir then filepath_Join env [builderDir, dir] else dir)"

definition buildpackLayer ::
  "('w, 'img, 'repo, 'grp) env \<Rightarrow> string \<Rightarrow> Buildpack \<Rightarrow> string
    \<Rightarrow> ('w, ('img, 'repo) event) machine
    \<Rightarrow> (err + string) \<times> ('w, ('img, 'repo) event) machine" where
  "buildpackLayer env dest buildpack builderDir s =
     (let dir = buildpackLayer_dir env (URI buildpack) builderDir;
          tomlPath = filepath_Join env [dir, ''buildpack.toml'']
      in case call (toml_DecodeFile_BP env tomlPath) (DecodeFileCall tomlPath) s of
           (Inl e, s1) \<Rightarrow>
             (Inl (''reading buildpack.toml from buildpack: '' @ tomlPath @ '': '' @ e), s1)
         | (Inr bp, s1) \<Rightarrow>
             if Buildpack.ID buildpack \<noteq> BP.ID bp then
               (Inl (''buildpack ids did not match: '' @ Buildpack.ID buildpack
                       @ '' != '' @ BP.ID bp), s1)
             else if Version bp = [] then
               (Inl (''buildpack.toml must provide version: '' @ tomlPath), s1)
             else
               (let tarFile = filepath_Join env
                      [dest, Buildpack.ID buildpack @ ''.'' @ Version bp @ ''.tar''];
                    tarDir = filepath_Join env
                      [''/buildpacks'', Buildpack.ID buildpack, Version bp]
                in case call (FS_CreateTGZFile env tarFile dir tarDir 0 0)
                             (CreateTGZFileCall tarFile dir tarDir 0 0) s1 of
                     (Some e, s2) \<Rightarrow> (Inl e, s2)
                   | (None, s2) \<Rightarrow> (Inr tarFile, s2)))"

section \<open>orderLayer\<close>

text \<open>\<^verbatim>\<open>toml.NewEncoder(orderFile).Encode(order{Groups: groups})\<close>.\<close>

definition toml_Encode ::
  "('w, 'img, 'repo, 'grp) env \<Rightarrow> os_File \<Rightarrow> 'grp list
    \<Rightarrow> ('w, ('img, 'repo) event) machine
    \<Rightarrow> err option \<times> ('w, ('img, 'repo) event) machine" where
  "toml_Encode env f groups s =
     (case toml_Marshal env groups of
        Inl e \<Rightarrow> (Some e, s)
      | Inr bytes \<Rightarrow> call (File_Write env f bytes) (FileWriteCall f bytes) s)"

text \<open>
  The deferred \<^verbatim>\<open>orderFile.Close()\<close> runs after the result is fixed, on every path
  behind the successful \<^verbatim>\<open>os.Create\<close>; what it returns is dropped. 0755 is 493.
\<close>

definition orderLayer ::
  "('w, 'img, 'repo, 'grp) env \<Rightarrow> string \<Rightarrow> 'grp list
    \<Rightarrow> ('w, ('img, 'repo) event) machine
    \<Rightarrow> (err + string) \<times> ('w, ('img, 'repo) event) machine" where
  "orderLayer env dest groups s =
     (let buildpackDir = filepath_Join env [dest, ''buildpack'']
      in case call (os_Mkdir env buildpackDir 493) (MkdirCall buildpackDir 493) s of
           (Some e, s1) \<Rightarrow> (Inl e, s1)
         | (None, s1) \<Rightarrow>
             (let orderPath = filepath_Join env [buildpackDir, ''order.toml'']
              in case call (os_Create env orderPath) (OsCreateCall orderPath) s1 of
                   (Inl e, s2) \<Rightarrow> (Inl e, s2)
                 | (Inr orderFile, s2) \<Rightarrow>
                     (case
                        (case toml_Encode env orderFile groups s2 of
                           (Some e, s3) \<Rightarrow> (Inl e, s3)
                         | (None, s3) \<Rightarrow>
                             (let layerTar = filepath_Join env [dest, ''order.tar'']
                              in case call
                                   (FS_CreateTGZFile env layerTar buildpackDir ''/buildpacks'' 0 0)
                                   (CreateTGZFileCall layerTar buildpackDir ''/buildpacks'' 0 0)
                                   s3 of
                                   (Some e, s4) \<Rightarrow> (Inl e, s4)
                                 | (None, s4) \<Rightarrow> (Inr layerTar, s4)))
                      of (r, s5) \<Rightarrow>
                        (case call (File_Close env orderFile) (FileCloseCall orderFile) s5 of
                           (_, s6) \<Rightarrow> (r, s6)))))"

section \<open>Create\<close>

text \<open>
  A call of \<^verbatim>\<open>Create\<close> either returns its \<^verbatim>\<open>error\<close> result (\<open>None\<close> for
  \<^verbatim>\<open>nil\<close>) or panics: \<^verbatim>\<open>config.Repo.Write\<close> on a nil \<^verbatim>\<open>Repo\<close> is a nil dereference.
\<close>

datatype outcome = Returns "err option" | Panics

text \<open>The \<^verbatim>\<open>for\<close> loop of lines 143-152, from the current \<^verbatim>\<open>builderImage\<close>.\<close>

fun Create_loop ::
  "('w, 'img, 'repo, 'grp) env \<Rightarrow> string \<Rightarrow> string \<Rightarrow> Buildpack list \<Rightarrow> 'img option
    \<Rightarrow> ('w, ('img, 'repo) event) machine
    \<Rightarrow> (err + 'img option) \<times> ('w, ('img, 'repo) event) machine" where
  "Create_loop env tmpDir builderDir [] builderImage s = (Inr builderImage, s)"
| "Create_loop env tmpDir builderDir (buildpack # rest) builderImage s =
     (case buildpackLayer env tmpDir buildpack builderDir s of
        (Inl e, s1) \<Rightarrow>
          (Inl (''failed generate layer for buildpack '' @ dquote @ Buildpack.ID buildpack
                  @ dquote @ '': '' @ e), s1)
      | (Inr tarFile, s1) \<Rightarrow>
          (case call (img_Append env builderImage tarFile) (AppendCall builderImage tarFile) s1 of
             (Inl e, s2) \<Rightarrow> (Inl (''failed append buildpack layer to image: '' @ e), s2)
           | (Inr builderImage', s2) \<Rightarrow>
               Create_loop env tmpDir builderDir rest builderImage' s2))"

definition println ::
  "('w, 'img, 'repo, 'grp) env \<Rightarrow> string list
    \<Rightarrow> ('w, ('img, 'repo) event) machine \<Rightarrow> ('w, ('img, 'repo) event) machine" where
  "println env args s =
     snd (call (\<lambda>w. ((), Log_Println env args w)) (\<lambda>_. PrintlnCall args) s)"

text \<open>Lines 135-161: what \<^verbatim>\<open>Create\<close> does behind \<^verbatim>\<open>defer os.Remove(tmpDir)\<close>.\<close>

definition Create_body ::
  "('w, 'img, 'repo, 'grp) env \<Rightarrow> ('img, 'repo, 'grp) BuilderConfig \<Rightarrow> string
    \<Rightarrow> ('w, ('img, 'repo) event) machine
    \<Rightarrow> outcome \<times> ('w, ('img, 'repo) event) machine" where
  "Create_body env config tmpDir s1 =
     (case orderLayer env tmpDir (Groups config) s1 of
        (Inl e, s2) \<Rightarrow> (Returns (Some (''failed generate order.toml layer: '' @ e)), s2)
      | (Inr orderTar, s2) \<Rightarrow>
          (case call (img_Append env (BaseImage config) orderTar)
                     (AppendCall (BaseImage config) orderTar) s2 of
             (Inl e, s3) \<Rightarrow>
               (Returns (Some (''failed append order.toml layer to image: '' @ e)), s3)
           | (Inr builderImage, s3) \<Rightarrow>
               (case Create_loop env tmpDir (BuilderDir config) (Buildpacks config)
                       builderImage s3 of
                  (Inl e, s4) \<Rightarrow> (Returns (Some e), s4)
                | (Inr builderImage', s4) \<Rightarrow>
                    (case Repo config of
                       None \<Rightarrow> (Panics, s4)
                     | Some repo \<Rightarrow>
                         (case call (Store_Write env repo builderImage')
                                    (RepoWriteCall repo builderImage') s4 of
                            (Some e, s5) \<Rightarrow> (Returns (Some e), s5)
                          | (None, s5) \<Rightarrow>
                              (Returns None,
                               println env
                                 [''Tip: Run '' @ dquote
                                  @ ''pack build <image name> --builder <builder image> --path <app source code>''
                                  @ dquote @ '' to use this builder'']
                                 (println env [[]]
                                   (println env
                                     [''Successfully created builder image:'',
                                      BuilderConfig.RepoName config] s5))))))))"

text \<open>
  \<^verbatim>\<open>defer os.Remove(tmpDir)\<close> runs on every path behind the successful
  \<^verbatim>\<open>ioutil.TempDir\<close>, after the result is fixed (the result is unnamed, so the deferred
  call cannot change it), also when the body panics; what it returns is dropped.
\<close>

definition Create ::
  "('w, 'img, 'repo, 'grp) env \<Rightarrow> ('img, 'repo, 'grp) BuilderConfig
    \<Rightarrow> ('w, ('img, 'repo) event) machine
    \<Rightarrow> outcome \<times> ('w, ('img, 'repo) event) machine" where
  "Create env config s =
     (case call (ioutil_TempDir env [] ''create-builder'')
                (TempDirCall [] ''create-builder'') s of
        (Inl e, s1) \<Rightarrow> (Returns (Some (''failed to create temporary directory: '' @ e)), s1)
      | (Inr tmpDir, s1) \<Rightarrow>
          (case Create_body env config tmpDir s1 of
             (r, s6) \<Rightarrow>
               (case call (os_Remove env tmpDir) (RemoveCall tmpDir) s6 of
                  (_, s7) \<Rightarrow> (r, s7))))"

section \<open>BuilderConfigFromFlags\<close>

definition baseImageName ::
  "('w, 'img, 'repo, 'grp) env \<Rightarrow> string \<Rightarrow> string \<Rightarrow> err + string" where
  "baseImageName env stackID repoName =
     (case Config_Get env stackID of
        Inl e \<Rightarrow> Inl e
      | Inr stack \<Rightarrow>
          if length (BuildImages stack) = 0 then
            Inl (''Invalid stack: stack '' @ dquote @ Stack.ID stack @ dquote
                   @ '' requies at least one build image'')
          else
            (case config_Registry env repoName of
               Inl e \<Rightarrow> Inl e
             | Inr registry \<Rightarrow> config_ImageByRegistry env registry (BuildImages stack)))"

text \<open>\<^verbatim>\<open>BuilderConfig{RepoName: name}\<close>: every other field has its zero value.\<close>

definition BuilderConfig_named :: "string \<Rightarrow> ('img, 'repo, 'grp) BuilderConfig" where
  "BuilderConfig_named name =
     \<lparr>BuilderConfig.RepoName = name, Repo = None, Buildpacks = [], Groups = [],
      BaseImage = None, BuilderDir = []\<rparr>"

text \<open>Lines 93-110: decoding builder.toml, reading the base image, opening the store.\<close>

definition BuilderConfigFromFlags_load ::
  "('w, 'img, 'repo, 'grp) env \<Rightarrow> CreateBuilderFlags \<Rightarrow> string
    \<Rightarrow> ('w, ('img, 'repo) event) machine
    \<Rightarrow> (err + ('img, 'repo, 'grp) BuilderConfig) \<times> ('w, ('img, 'repo) event) machine" where
  "BuilderConfigFromFlags_load env flags baseImage s1 =
     (case call (toml_DecodeFile_Builder env (BuilderTomlPath flags)
                   (BuilderConfig_named (CreateBuilderFlags.RepoName flags)))
                (\<lambda>r. DecodeBuilderCall (BuilderTomlPath flags)
                       (case r of Inl e \<Rightarrow> Some e | Inr _ \<Rightarrow> None)) s1 of
        (Inl e, s2) \<Rightarrow>
          (Inl (''failed to decode builder config from file '' @ dquote
                  @ BuilderTomlPath flags @ dquote @ '': '' @ e), s2)
      | (Inr decoded, s2) \<Rightarrow>
          (case call (Images_ReadImage env baseImage (\<not> Publish flags))
                     (ReadImageCall baseImage (\<not> Publish flags)) s2 of
             (Inl e, s3) \<Rightarrow>
               (Inl (''failed to read base image '' @ dquote @ baseImage @ dquote
                       @ '': '' @ e), s3)
           | (Inr None, s3) \<Rightarrow>
               (Inl (''base image '' @ dquote @ baseImage @ dquote @ '' was not found''), s3)
           | (Inr (Some baseImg), s3) \<Rightarrow>
               (case call (Images_RepoStore env (CreateBuilderFlags.RepoName flags)
                             (\<not> Publish flags))
                          (RepoStoreCall (CreateBuilderFlags.RepoName flags)
                             (\<not> Publish flags)) s3 of
                  (Inl e, s4) \<Rightarrow>
                    (Inl (''failed to create repository store for builder image ''
                            @ dquote @ CreateBuilderFlags.RepoName flags @ dquote
                            @ '': '' @ e), s4)
                | (Inr store, s4) \<Rightarrow>
                    (Inr (decoded\<lparr>BuilderDir := filepath_Dir env (BuilderTomlPath flags),
                                  BaseImage := Some baseImg, Repo := store\<rparr>), s4))))"

definition BuilderConfigFromFlags ::
  "('w, 'img, 'repo, 'grp) env \<Rightarrow> CreateBuilderFlags
    \<Rightarrow> ('w, ('img, 'repo) event) machine
    \<Rightarrow> (err + ('img, 'repo, 'grp) BuilderConfig) \<times> ('w, ('img, 'repo) event) machine" where
  "BuilderConfigFromFlags env flags s =
     (case baseImageName env (StackID flags) (CreateBuilderFlags.RepoName flags) of
        Inl e \<Rightarrow> (Inl e, s)
      | Inr baseImage \<Rightarrow>
          (case
             (if \<not> NoPull flags \<and> \<not> Publish flags then
                call (Docker_PullImage env baseImage) (PullImageCall baseImage)
                  (println env [''Pulling builder base image '', baseImage] s)
              else (None, s))
           of
             (Some e, s1) \<Rightarrow>
               (Inl (''failed to pull stack build image '' @ dquote @ baseImage @ dquote
                       @ '': '' @ e), s1)
           | (None, s1) \<Rightarrow> BuilderConfigFromFlags_load env flags baseImage s1))"

section \<open>Reading the record of calls\<close>

text \<open>
  The calls of layer generation (\<^verbatim>\<open>orderLayer\<close>, \<^verbatim>\<open>buildpackLayer\<close>): directory and
  file operations, the metadata decode and the archive packager.
\<close>

fun fs_event :: "('img, 'repo) event \<Rightarrow> bool" where
  "fs_event (MkdirCall _ _ _) = True"
| "fs_event (OsCreateCall _ _) = True"
| "fs_event (FileCloseCall _ _) = True"
| "fs_event (FileWriteCall _ _ _) = True"
| "fs_event (CreateTGZFileCall _ _ _ _ _ _) = True"
| "fs_event (DecodeFileCall _ _) = True"
| "fs_event _ = False"

text \<open>The bytes handed to \<^verbatim>\<open>Write\<close> on a file, in order.\<close>

fun written_bytes :: "('img, 'repo) event list \<Rightarrow> string list" where
  "written_bytes [] = []"
| "written_bytes (FileWriteCall f bytes r # es) = bytes # written_bytes es"
| "written_bytes (_ # es) = written_bytes es"

text \<open>
  The successful appends of the module layers, one per (module, version, image it
  produced), each on the image the one before produced; and the image they end with.
\<close>

fun module_appends ::
  "('w, 'img, 'repo, 'grp) env \<Rightarrow> string \<Rightarrow> 'img option
    \<Rightarrow> (Buildpack \<times> string \<times> 'img option) list \<Rightarrow> ('img, 'repo) event list" where
  "module_appends env tmpDir img [] = []"
| "module_appends env tmpDir img ((buildpack, version, img') # rest) =
     AppendCall img
       (filepath_Join env [tmpDir, Buildpack.ID buildpack @ ''.'' @ version @ ''.tar''])
       (Inr img')
     # module_appends env tmpDir img' rest"

fun final_image :: "'img option \<Rightarrow> (Buildpack \<times> string \<times> 'img option) list \<Rightarrow> 'img option" where
  "final_image img [] = img"
| "final_image img ((buildpack, version, img') # rest) = final_image img' rest"

text \<open>
  A step of \<^verbatim>\<open>Create\<close> before the repository write fails, and \<open>e\<close> is that failure
  with the context \<^verbatim>\<open>Create\<close> wraps it in: the temporary directory, the order layer, its
  append, or, behind the modules \<open>done\<close> that were generated and appended, the
  layer of the next module or its append.
\<close>

inductive step_fails ::
  "('w, 'img, 'repo, 'grp) env \<Rightarrow> ('img, 'repo, 'grp) BuilderConfig
    \<Rightarrow> ('w, ('img, 'repo) event) machine \<Rightarrow> err \<Rightarrow> bool"
  for env config s where
  temp_dir:
    "call (ioutil_TempDir env [] ''create-builder'') (TempDirCall [] ''create-builder'') s
       = (Inl e, s1)
     \<Longrightarrow> step_fails env config s (''failed to create temporary directory: '' @ e)"
| order_layer:
    "call (ioutil_TempDir env [] ''create-builder'') (TempDirCall [] ''create-builder'') s
       = (Inr tmpDir, s1)
     \<Longrightarrow> orderLayer env tmpDir (Groups config) s1 = (Inl e, s2)
     \<Longrightarrow> step_fails env config s (''failed generate order.toml layer: '' @ e)"
| order_append:
    "call (ioutil_TempDir env [] ''create-builder'') (TempDirCall [] ''create-builder'') s
       = (Inr tmpDir, s1)
     \<Longrightarrow> orderLayer env tmpDir (Groups config) s1 = (Inr orderTar, s2)
     \<Longrightarrow> call (img_Append env (BaseImage config) orderTar)
               (AppendCall (BaseImage config) orderTar) s2 = (Inl e, s3)
     \<Longrightarrow> step_fails env config s (''failed append order.toml layer to image: '' @ e)"
| module_layer:
    "call (ioutil_TempDir env [] ''create-builder'') (TempDirCall [] ''create-builder'') s
       = (Inr tmpDir, s1)
     \<Longrightarrow> orderLayer env tmpDir (Groups config) s1 = (Inr orderTar, s2)
     \<Longrightarrow> call (img_Append env (BaseImage config) orderTar)
               (AppendCall (BaseImage config) orderTar) s2 = (Inr img0, s3)
     \<Longrightarrow> Buildpacks config = done @ buildpack # rest
     \<Longrightarrow> Create_loop env tmpDir (BuilderDir config) done img0 s3 = (Inr img, s4)
     \<Longrightarrow> buildpackLayer env tmpDir buildpack (BuilderDir config) s4 = (Inl e, s5)
     \<Longrightarrow> step_fails env config s
           (''failed generate layer for buildpack '' @ dquote @ Buildpack.ID buildpack
              @ dquote @ '': '' @ e)"
| module_append:
    "call (ioutil_TempDir env [] ''create-builder'') (TempDirCall [] ''create-builder'') s
       = (Inr tmpDir, s1)
     \<Longrightarrow> orderLayer env tmpDir (Groups config) s1 = (Inr orderTar, s2)
     \<Longrightarrow> call (img_Append env (BaseImage config) orderTar)
               (AppendCall (BaseImage config) orderTar) s2 = (Inr img0, s3)
     \<Longrightarrow> Buildpacks config = done @ buildpack # rest
     \<Longrightarrow> Create_loop env tmpDir (BuilderDir config) done img0 s3 = (Inr img, s4)
     \<Longrightarrow> buildpackLayer env tmpDir buildpack (BuilderDir config) s4 = (Inr tarFile, s5)
     \<Longrightarrow> call (img_Append env img tarFile) (AppendCall img tarFile) s5 = (Inl e, s6)
     \<Longrightarrow> step_fails env config s (''failed append buildpack layer to image: '' @ e)"

code_pred step_fails .

section \<open>A sample environment\<close>

text \<open>
  One concrete set of collaborators, used to run the model: every call succeeds, an
  image is the list of its layers, a store is its repository name, an ordering group is
  a list of identities, and the only module on disk is \<^verbatim>\<open>/spec/bp-java\<close>, declaring
  id \<^verbatim>\<open>java\<close> and version \<^verbatim>\<open>1.0.0\<close>. \<open>demo_Join\<close> joins with a slash; on the clean
  paths used here that is what \<^verbatim>\<open>filepath.Join\<close> returns.
\<close>

definition demo_Join :: "string list \<Rightarrow> string" where
  "demo_Join xs = foldr (\<lambda>a b. if b = [] then a else a @ ''/'' @ b) xs []"

definition demo_env :: "(unit, string list, string, string list) env" where
  "demo_env =
     \<lparr>filepath_Join = demo_Join,
      filepath_Dir = (\<lambda>p. ''/spec''),
      ioutil_TempDir = (\<lambda>dir pattern w. (Inr ''/tmp/create-builder1'', w)),
      os_Remove = (\<lambda>p w. (None, w)),
      os_Mkdir = (\<lambda>p perm w. (None, w)),
      os_Create = (\<lambda>p w. (Inr 3, w)),
      File_Close = (\<lambda>f w. (None, w)),
      File_Write = (\<lambda>f bytes w. (None, w)),
      toml_Marshal = (\<lambda>groups. Inr (concat (map concat groups))),
      toml_DecodeFile_BP =
        (\<lambda>p w. (if p = ''/spec/bp-java/buildpack.toml''
                then Inr \<lparr>BP.ID = ''java'', Version = ''1.0.0''\<rparr>
                else Inl ''no such file or directory'', w)),
      toml_DecodeFile_Builder =
        (\<lambda>p config w.
           (Inr (config\<lparr>Buildpacks := [\<lparr>Buildpack.ID = ''java'', URI = ''bp-java''\<rparr>],
                        Groups := [[''java'']]\<rparr>), w)),
      FS_CreateTGZFile = (\<lambda>tarFile srcDir tarDir uid gid w. (None, w)),
      img_Append =
        (\<lambda>img tarFile w.
           (Inr (Some ((case img of None \<Rightarrow> [] | Some layers \<Rightarrow> layers) @ [tarFile])), w)),
      Store_Write = (\<lambda>repo img w. (None, w)),
      Log_Println = (\<lambda>args w. w),
      Docker_PullImage = (\<lambda>ref w. (None, w)),
      Images_ReadImage = (\<lambda>ref useDaemon w. (Inr (Some []), w)),
      Images_RepoStore = (\<lambda>name useDaemon w. (Inr (Some name), w)),
      Config_Get =
        (\<lambda>stackID. if stackID = ''bionic''
                   then Inr \<lparr>Stack.ID = ''bionic'', BuildImages = [''packs/build'']\<rparr>
                   else Inl ''stack not found''),
      config_Registry = (\<lambda>repoName. Inr ''index.docker.io''),
      config_ImageByRegistry =
        (\<lambda>registry images. case images of [] \<Rightarrow> Inl ''no image'' | i # _ \<Rightarrow> Inr i)\<rparr>"

definition demo_config :: "(string list, string, string list) BuilderConfig" where
  "demo_config =
     \<lparr>BuilderConfig.RepoName = ''myorg/builder'', Repo = Some ''myorg/builder'',
      Buildpacks = [\<lparr>Buildpack.ID = ''java'', URI = ''bp-java''\<rparr>],
      Groups = [[''java'']], BaseImage = Some [], BuilderDir = ''/spec''\<rparr>"

definition demo_start :: "(unit, (string list, string) event) machine" where
  "demo_start = \<lparr>world = (), trace = []\<rparr>"

text \<open>The same collaborators with other metadata on disk, and with failing calls.\<close>

definition demo_env_jvm :: "(unit, string list, string, string list) env" where
  "demo_env_jvm =
     demo_env\<lparr>toml_DecodeFile_BP :=
                (\<lambda>p w. (Inr \<lparr>BP.ID = ''jvm'', Version = ''1.0.0''\<rparr>, w))\<rparr>"

definition demo_env_noversion :: "(unit, string list, string, string list) env" where
  "demo_env_noversion =
     demo_env\<lparr>toml_DecodeFile_BP :=
                (\<lambda>p w. (Inr \<lparr>BP.ID = ''java'', Version = []\<rparr>, w))\<rparr>"

definition demo_env_jvm_noversion :: "(unit, string list, string, string list) env" where
  "demo_env_jvm_noversion =
     demo_env\<lparr>toml_DecodeFile_BP :=
                (\<lambda>p w. (Inr \<lparr>BP.ID = ''jvm'', Version = []\<rparr>, w))\<rparr>"

definition demo_env_io_fails :: "(unit, string list, string, string list) env" where
  "demo_env_io_fails =
     demo_env\<lparr>os_Mkdir := (\<lambda>p perm w. (Some ''permission denied'', w)),
              os_Remove := (\<lambda>p w. (Some ''directory not empty'', w))\<rparr>"

definition demo_java :: Buildpack where
  "demo_java = \<lparr>Buildpack.ID = ''java'', URI = ''bp-java''\<rparr>"

definition demo_config_empty :: "(string list, string, string list) BuilderConfig" where
  "demo_config_empty = demo_config\<lparr>Buildpacks := []\<rparr>"

definition demo_flags :: CreateBuilderFlags where
  "demo_flags =
     \<lparr>CreateBuilderFlags.RepoName = ''myorg/builder'',
      BuilderTomlPath = ''/spec/builder.toml'', StackID = ''bionic'',
      Publish = False, NoPull = False\<rparr>"

definition demo_flags_unknown_stack :: CreateBuilderFlags where
  "demo_flags_unknown_stack = demo_flags\<lparr>StackID := ''trusty''\<rparr>"

section \<open>The calls of a run\<close>

lemma call_trace: "call f ev s = (r, s') \<Longrightarrow> trace s' = trace s @ [ev r]"
  by (auto simp: call_def split: prod.splits)

lemma println_trace: "trace (println env args s) = trace s @ [PrintlnCall args]"
  by (simp add: println_def call_def)

lemma events_since_app: "trace s' = trace s @ evs \<Longrightarrow> events_since s s' = evs"
  by (simp add: events_since_def)

lemma fs_event_filters:
  "list_all fs_event evs \<Longrightarrow>
     filter is_AppendCall evs = [] \<and> filter is_RepoWriteCall evs = []
     \<and> filter is_PrintlnCall evs = [] \<and> filter is_RemoveCall evs = []"
proof (induction evs)
  case Nil
  show ?case by simp
next
  case (Cons e evs)
  then show ?case by (cases e) simp_all
qed

lemma orderLayer_trace:
  assumes "orderLayer env dest groups s = (r, s')"
  shows "\<exists>evs. trace s' = trace s @ evs \<and> list_all fs_event evs
           \<and> filter is_DecodeFileCall evs = []
           \<and> (written_bytes evs = []
                \<or> (\<exists>b. toml_Marshal env groups = Inr b \<and> written_bytes evs = [b]))
           \<and> (\<forall>t. r = Inr t \<longrightarrow>
                  t = filepath_Join env [dest, ''order.tar'']
                  \<and> (\<exists>b. toml_Marshal env groups = Inr b \<and> written_bytes evs = [b]))"
  using assms
  by (auto simp: orderLayer_def call_def toml_Encode_def Let_def
           split: prod.splits sum.splits option.splits)

lemma buildpackLayer_trace:
  assumes "buildpackLayer env dest buildpack builderDir s = (r, s')"
  shows "\<exists>evs. trace s' = trace s @ evs \<and> list_all fs_event evs
           \<and> (\<forall>t. r = Inr t \<longrightarrow>
                  (\<exists>v. t = filepath_Join env
                             [dest, Buildpack.ID buildpack @ ''.'' @ v @ ''.tar'']))"
  using assms
  by (auto simp: buildpackLayer_def call_def Let_def
           split: prod.splits sum.splits option.splits if_splits)


lemma Create_loop_trace:
  "Create_loop env tmpDir builderDir bps img s = (r, s') \<Longrightarrow>
     \<exists>evs. trace s' = trace s @ evs
        \<and> filter is_RepoWriteCall evs = [] \<and> filter is_PrintlnCall evs = []
        \<and> filter is_RemoveCall evs = []
        \<and> (\<forall>img'. r = Inr img' \<longrightarrow>
               (\<exists>steps. map fst steps = bps
                  \<and> filter is_AppendCall evs = module_appends env tmpDir img steps
                  \<and> img' = final_image img steps))"
proof (induction bps arbitrary: img s)
  case Nil
  then show ?case by auto
next
  case (Cons bp rest)
  obtain rl s1 where bl: "buildpackLayer env tmpDir bp builderDir s = (rl, s1)"
    by (cases "buildpackLayer env tmpDir bp builderDir s")
  from buildpackLayer_trace[OF bl] obtain e1 where
    e1: "trace s1 = trace s @ e1" "list_all fs_event e1"
    and tar: "\<forall>t. rl = Inr t \<longrightarrow>
               (\<exists>v. t = filepath_Join env [tmpDir, Buildpack.ID bp @ ''.'' @ v @ ''.tar''])"
    by blast
  note f1 = fs_event_filters[OF e1(2)]
  show ?case
  proof (cases rl)
    case (Inl e)
    with Cons.prems bl e1 f1 show ?thesis by auto
  next
    case (Inr tarFile)
    from tar Inr obtain v where
      v: "tarFile = filepath_Join env [tmpDir, Buildpack.ID bp @ ''.'' @ v @ ''.tar'']"
      by blast
    obtain ra s2 where ap:
      "call (img_Append env img tarFile) (AppendCall img tarFile) s1 = (ra, s2)"
      by (cases "call (img_Append env img tarFile) (AppendCall img tarFile) s1")
    have t2: "trace s2 = trace s @ e1 @ [AppendCall img tarFile ra]"
      using call_trace[OF ap] e1 by simp
    show ?thesis
    proof (cases ra)
      case (Inl e)
      with Cons.prems bl Inr ap t2 f1 show ?thesis by auto
    next
      case (Inr img1)
      with Cons.prems bl \<open>rl = Inr tarFile\<close> ap
      have rec: "Create_loop env tmpDir builderDir rest img1 s2 = (r, s')" by simp
      from Cons.IH[OF rec] obtain e2 where
        e2: "trace s' = trace s2 @ e2" "filter is_RepoWriteCall e2 = []"
            "filter is_PrintlnCall e2 = []" "filter is_RemoveCall e2 = []"
        and st: "\<forall>img'. r = Inr img' \<longrightarrow>
               (\<exists>steps. map fst steps = rest
                  \<and> filter is_AppendCall e2 = module_appends env tmpDir img1 steps
                  \<and> img' = final_image img1 steps)"
        by blast
      let ?evs = "e1 @ AppendCall img tarFile ra # e2"
      have a: "trace s' = trace s @ ?evs" using e2 t2 by simp
      have b: "filter is_RepoWriteCall ?evs = []" "filter is_PrintlnCall ?evs = []"
              "filter is_RemoveCall ?evs = []"
        using f1 e2 by simp_all
      have c: "\<forall>img'. r = Inr img' \<longrightarrow>
               (\<exists>steps. map fst steps = bp # rest
                  \<and> filter is_AppendCall ?evs = module_appends env tmpDir img steps
                  \<and> img' = final_image img steps)"
      proof (intro allI impI)
        fix img' assume "r = Inr img'"
        with st obtain steps where s: "map fst steps = rest"
          "filter is_AppendCall e2 = module_appends env tmpDir img1 steps"
          "img' = final_image img1 steps" by blast
        let ?steps = "(bp, v, img1) # steps"
        have x1: "map fst ?steps = bp # rest" using s by simp
        have x2: "filter is_AppendCall ?evs = module_appends env tmpDir img ?steps"
          using f1 s v Inr by simp
        have x3: "img' = final_image img ?steps" using s by simp
        show "\<exists>steps. map fst steps = bp # rest
                  \<and> filter is_AppendCall ?evs = module_appends env tmpDir img steps
                  \<and> img' = final_image img steps"
          by (rule exI[of _ ?steps]) (intro conjI x1 x2 x3)
      qed
      from a b c show ?thesis by blast
    qed
  qed
qed


lemma Create_body_trace:
  fixes s :: "('w, ('img, 'repo) event) machine"
  assumes run: "Create_body env config tmpDir s = (r, s')"
  shows "\<exists>evs. trace s' = trace s @ evs \<and> filter is_RemoveCall evs = []
           \<and> ((filter is_RepoWriteCall evs = [] \<and> filter is_PrintlnCall evs = []
                  \<and> r \<noteq> Returns None)
                \<or> (\<exists>pre repo img res img0 steps post.
                      evs = pre @ RepoWriteCall repo img res # post
                      \<and> filter is_RepoWriteCall pre = [] \<and> filter is_PrintlnCall pre = []
                      \<and> map fst steps = Buildpacks config
                      \<and> filter is_AppendCall pre
                          = AppendCall (BaseImage config)
                              (filepath_Join env [tmpDir, ''order.tar'']) (Inr img0)
                            # module_appends env tmpDir img0 steps
                      \<and> img = final_image img0 steps
                      \<and> Repo config = Some repo \<and> r = Returns res
                      \<and> list_all is_PrintlnCall post \<and> (res \<noteq> None \<longrightarrow> post = [])
                      \<and> (\<exists>orderTar s2 s3 s4.
                            orderLayer env tmpDir (Groups config) s = (Inr orderTar, s2)
                            \<and> call (img_Append env (BaseImage config) orderTar)
                                     (AppendCall (BaseImage config) orderTar) s2 = (Inr img0, s3)
                            \<and> Create_loop env tmpDir (BuilderDir config) (Buildpacks config)
                                  img0 s3 = (Inr img, s4))))"
proof -
  obtain ro s2 where ol: "orderLayer env tmpDir (Groups config) s = (ro, s2)"
    by (cases "orderLayer env tmpDir (Groups config) s")
  from orderLayer_trace[OF ol] obtain e1 where
    e1: "trace s2 = trace s @ e1" "list_all fs_event e1"
    and tar: "\<forall>t. ro = Inr t \<longrightarrow> t = filepath_Join env [tmpDir, ''order.tar'']"
    by blast
  note f1 = fs_event_filters[OF e1(2)]
  show ?thesis
  proof (cases ro)
    case (Inl e)
    with run ol have "r = Returns (Some (''failed generate order.toml layer: '' @ e))" "s' = s2"
      by (simp_all add: Create_body_def)
    with e1 f1 show ?thesis by auto
  next
    case (Inr orderTar)
    with tar have ot: "orderTar = filepath_Join env [tmpDir, ''order.tar'']" by simp
    obtain ra s3 where ap:
      "call (img_Append env (BaseImage config) orderTar)
            (AppendCall (BaseImage config) orderTar) s2 = (ra, s3)"
      by (cases "call (img_Append env (BaseImage config) orderTar)
                      (AppendCall (BaseImage config) orderTar) s2")
    have t3: "trace s3 = trace s @ e1 @ [AppendCall (BaseImage config) orderTar ra]"
      using call_trace[OF ap] e1 by simp
    show ?thesis
    proof (cases ra)
      case (Inl e)
      with run ol \<open>ro = Inr orderTar\<close> ap
      have "r = Returns (Some (''failed append order.toml layer to image: '' @ e))" "s' = s3"
        by (simp_all add: Create_body_def)
      with t3 f1 show ?thesis by auto
    next
      case (Inr img0)
      obtain rl s4 where lp:
        "Create_loop env tmpDir (BuilderDir config) (Buildpacks config) img0 s3 = (rl, s4)"
        by (cases "Create_loop env tmpDir (BuilderDir config) (Buildpacks config) img0 s3")
      from Create_loop_trace[OF lp] obtain e2 where
        e2: "trace s4 = trace s3 @ e2" "filter is_RepoWriteCall e2 = []"
            "filter is_PrintlnCall e2 = []" "filter is_RemoveCall e2 = []"
        and st: "\<forall>img'. rl = Inr img' \<longrightarrow>
               (\<exists>steps. map fst steps = Buildpacks config
                  \<and> filter is_AppendCall e2 = module_appends env tmpDir img0 steps
                  \<and> img' = final_image img0 steps)"
        by blast
      let ?pre = "e1 @ AppendCall (BaseImage config) orderTar ra # e2"
      have t4: "trace s4 = trace s @ ?pre" using e2 t3 by simp
      have p: "filter is_RepoWriteCall ?pre = []" "filter is_PrintlnCall ?pre = []"
              "filter is_RemoveCall ?pre = []"
        using f1 e2 by simp_all
      show ?thesis
      proof (cases rl)
        case (Inl e)
        with run ol \<open>ro = Inr orderTar\<close> ap \<open>ra = Inr img0\<close> lp
        have "r = Returns (Some e)" "s' = s4" by (simp_all add: Create_body_def)
        with t4 p show ?thesis by blast
      next
        case (Inr img)
        with st obtain steps where steps: "map fst steps = Buildpacks config"
          "filter is_AppendCall e2 = module_appends env tmpDir img0 steps"
          "img = final_image img0 steps" by blast
        have stages: "orderLayer env tmpDir (Groups config) s = (Inr orderTar, s2)
            \<and> call (img_Append env (BaseImage config) orderTar)
                     (AppendCall (BaseImage config) orderTar) s2 = (Inr img0, s3)
            \<and> Create_loop env tmpDir (BuilderDir config) (Buildpacks config) img0 s3
                = (Inr img, s4)"
          using ol \<open>ro = Inr orderTar\<close> ap \<open>ra = Inr img0\<close> lp Inr by simp
        have ap_pre: "filter is_AppendCall ?pre
            = AppendCall (BaseImage config) (filepath_Join env [tmpDir, ''order.tar'']) (Inr img0)
              # module_appends env tmpDir img0 steps"
          using f1 steps ot \<open>ra = Inr img0\<close> by simp
        show ?thesis
        proof (cases "Repo config")
          case None
          with run ol \<open>ro = Inr orderTar\<close> ap \<open>ra = Inr img0\<close> lp \<open>rl = Inr img\<close>
          have "r = Panics" "s' = s4" by (simp_all add: Create_body_def)
          with t4 p show ?thesis by blast
        next
          case (Some repo)
          obtain res s5 where wr:
            "call (Store_Write env repo img) (RepoWriteCall repo img) s4 = (res, s5)"
            by (cases "call (Store_Write env repo img) (RepoWriteCall repo img) s4")
          have t5: "trace s5 = trace s @ ?pre @ [RepoWriteCall repo img res]"
            using call_trace[OF wr] t4 by simp
          define post :: "('img, 'repo) event list" where "post =
            (if res = None then
               [PrintlnCall [''Successfully created builder image:'',
                             BuilderConfig.RepoName config],
                PrintlnCall [[]],
                PrintlnCall [''Tip: Run '' @ dquote
                   @ ''pack build <image name> --builder <builder image> --path <app source code>''
                   @ dquote @ '' to use this builder'']]
             else [])"
          have fin: "r = Returns res \<and> trace s' = trace s5 @ post"
            using run ol \<open>ro = Inr orderTar\<close> ap \<open>ra = Inr img0\<close> lp \<open>rl = Inr img\<close> Some wr
            by (cases res) (auto simp: Create_body_def post_def println_trace)
          have post: "list_all is_PrintlnCall post" "res \<noteq> None \<longrightarrow> post = []"
            "filter is_RemoveCall post = []"
            by (simp_all add: post_def)
          let ?evs = "?pre @ RepoWriteCall repo img res # post"
          have a: "trace s' = trace s @ ?evs" using fin t5 by simp
          have b: "filter is_RemoveCall ?evs = []" using p post by simp
          have c: "\<exists>pre repo' img' res' img0' steps' post'.
                      ?evs = pre @ RepoWriteCall repo' img' res' # post'
                      \<and> filter is_RepoWriteCall pre = [] \<and> filter is_PrintlnCall pre = []
                      \<and> map fst steps' = Buildpacks config
                      \<and> filter is_AppendCall pre
                          = AppendCall (BaseImage config)
                              (filepath_Join env [tmpDir, ''order.tar'']) (Inr img0')
                            # module_appends env tmpDir img0' steps'
                      \<and> img' = final_image img0' steps'
                      \<and> Repo config = Some repo' \<and> r = Returns res'
                      \<and> list_all is_PrintlnCall post' \<and> (res' \<noteq> None \<longrightarrow> post' = [])
                      \<and> (\<exists>orderTar s2 s3 s4.
                            orderLayer env tmpDir (Groups config) s = (Inr orderTar, s2)
                            \<and> call (img_Append env (BaseImage config) orderTar)
                                     (AppendCall (BaseImage config) orderTar) s2 = (Inr img0', s3)
                            \<and> Create_loop env tmpDir (BuilderDir config) (Buildpacks config)
                                  img0' s3 = (Inr img', s4))"
            apply (rule exI[of _ ?pre], rule exI[of _ repo], rule exI[of _ img],
                   rule exI[of _ res], rule exI[of _ img0], rule exI[of _ steps],
                   rule exI[of _ post])
            using p steps ap_pre Some fin post stages by simp
          from a b c show ?thesis by blast
        qed
      qed
    qed
  qed
qed


lemma println_filters:
  "list_all is_PrintlnCall evs \<Longrightarrow>
     filter is_AppendCall evs = [] \<and> filter is_RepoWriteCall evs = []
     \<and> filter is_RemoveCall evs = [] \<and> filter is_DecodeFileCall evs = []"
proof (induction evs)
  case Nil
  show ?case by simp
next
  case (Cons e evs)
  then show ?case by (cases e) simp_all
qed

lemma Create_trace:
  fixes s :: "('w, ('img, 'repo) event) machine"
  assumes run: "Create env config s = (r, s')"
  shows "(\<exists>e. call (ioutil_TempDir env [] ''create-builder'')
                  (TempDirCall [] ''create-builder'') s = (Inl e, s')
              \<and> events_since s s' = [TempDirCall [] ''create-builder'' (Inl e)]
              \<and> r = Returns (Some (''failed to create temporary directory: '' @ e)))
       \<or> (\<exists>tmpDir s1 s6 body rr.
              call (ioutil_TempDir env [] ''create-builder'')
                   (TempDirCall [] ''create-builder'') s = (Inr tmpDir, s1)
              \<and> Create_body env config tmpDir s1 = (r, s6)
              \<and> trace s6 = trace s1 @ body
              \<and> events_since s s'
                  = TempDirCall [] ''create-builder'' (Inr tmpDir) # body @ [RemoveCall tmpDir rr]
              \<and> rr = fst (os_Remove env tmpDir (world s6)))"
proof -
  obtain rt s1 where td:
    "call (ioutil_TempDir env [] ''create-builder'') (TempDirCall [] ''create-builder'') s
       = (rt, s1)"
    by (cases "call (ioutil_TempDir env [] ''create-builder'')
                    (TempDirCall [] ''create-builder'') s")
  have t1: "trace s1 = trace s @ [TempDirCall [] ''create-builder'' rt]"
    using call_trace[OF td] .
  show ?thesis
  proof (cases rt)
    case (Inl e)
    with run td have "r = Returns (Some (''failed to create temporary directory: '' @ e))"
      "s' = s1" by (simp_all add: Create_def)
    with td t1 Inl show ?thesis by (simp add: events_since_def)
  next
    case (Inr tmpDir)
    obtain rb s6 where bd: "Create_body env config tmpDir s1 = (rb, s6)"
      by (cases "Create_body env config tmpDir s1")
    from Create_body_trace[OF bd] obtain body where body: "trace s6 = trace s1 @ body"
      by blast
    obtain rr s7 where rm: "call (os_Remove env tmpDir) (RemoveCall tmpDir) s6 = (rr, s7)"
      by (cases "call (os_Remove env tmpDir) (RemoveCall tmpDir) s6")
    have rr: "rr = fst (os_Remove env tmpDir (world s6))"
      using rm by (auto simp: call_def split: prod.splits)
    have fin: "r = rb" "s' = s7" using run td Inr bd rm by (simp_all add: Create_def)
    have "trace s' = trace s @ TempDirCall [] ''create-builder'' (Inr tmpDir) # body
                       @ [RemoveCall tmpDir rr]"
      using call_trace[OF rm] body t1 Inr fin by simp
    then have "events_since s s'
                 = TempDirCall [] ''create-builder'' (Inr tmpDir) # body @ [RemoveCall tmpDir rr]"
      by (rule events_since_app)
    with td Inr bd body fin rr show ?thesis by blast
  qed
qed


section \<open>Evaluating the model on the sample environment\<close>

lemmas demo_defs =
  demo_env_def demo_env_jvm_def demo_env_noversion_def demo_env_jvm_noversion_def
  demo_env_io_fails_def demo_config_def demo_config_empty_def demo_start_def demo_java_def
  demo_flags_def demo_flags_unknown_stack_def demo_Join_def

lemmas run_defs =
  Create_def Create_body_def orderLayer_def buildpackLayer_def toml_Encode_def call_def
  println_def buildpackLayer_dir_def TrimPrefix_def HasPrefix_def IsAbs_def Let_def
  events_since_def

section \<open>Module layers: validation of the metadata\<close>

text \<open>
  C3. When the metadata read from the module's buildpack.toml declares an id that is not
  the id of the \<^verbatim>\<open>Buildpack\<close> entry, \<^verbatim>\<open>buildpackLayer\<close> fails with the message
  \<^verbatim>\<open>buildpack ids did not match: <entry id> != <metadata id>\<close>, which names both
  values, and the only call it has made is the decode of the metadata: no archive is
  produced for the module.
\<close>

theorem buildpackLayer_id_mismatch:
  assumes dec: "toml_DecodeFile_BP env
                  (filepath_Join env [buildpackLayer_dir env (URI buildpack) builderDir,
                                      ''buildpack.toml'']) (world s) = (Inr bp, w')"
      and ne: "Buildpack.ID buildpack \<noteq> BP.ID bp"
  shows "fst (buildpackLayer env dest buildpack builderDir s)
           = Inl (''buildpack ids did not match: '' @ Buildpack.ID buildpack
                    @ '' != '' @ BP.ID bp)
         \<and> events_since s (snd (buildpackLayer env dest buildpack builderDir s))
           = [DecodeFileCall
                (filepath_Join env [buildpackLayer_dir env (URI buildpack) builderDir,
                                    ''buildpack.toml'']) (Inr bp)]
         \<and> filter is_CreateTGZFileCall
              (events_since s (snd (buildpackLayer env dest buildpack builderDir s))) = []"
  using dec ne
  by (simp add: buildpackLayer_def call_def events_since_def Let_def)

theorem buildpackLayer_id_mismatch_witness:
  "fst (buildpackLayer demo_env_jvm ''/tmp/create-builder1'' demo_java ''/spec'' demo_start)
     = Inl ''buildpack ids did not match: java != jvm''
   \<and> events_since demo_start
        (snd (buildpackLayer demo_env_jvm ''/tmp/create-builder1'' demo_java ''/spec''
                demo_start))
     = [DecodeFileCall ''/spec/bp-java/buildpack.toml''
          (Inr \<lparr>BP.ID = ''jvm'', Version = ''1.0.0''\<rparr>)]"
proof -
  have dec: "toml_DecodeFile_BP demo_env_jvm
               (filepath_Join demo_env_jvm
                  [buildpackLayer_dir demo_env_jvm (URI demo_java) ''/spec'',
                   ''buildpack.toml'']) (world demo_start)
             = (Inr \<lparr>BP.ID = ''jvm'', Version = ''1.0.0''\<rparr>, ())"
    by (simp add: demo_defs)
  have ne: "Buildpack.ID demo_java \<noteq> BP.ID \<lparr>BP.ID = ''jvm'', Version = ''1.0.0''\<rparr>"
    by (simp add: demo_defs)
  from buildpackLayer_id_mismatch[OF dec ne, of "''/tmp/create-builder1''"]
  show ?thesis
    by (simp add: demo_defs buildpackLayer_dir_def TrimPrefix_def HasPrefix_def IsAbs_def)
qed

text \<open>
  C4. When the metadata declares the empty version, \<^verbatim>\<open>buildpackLayer\<close> fails with a
  validation error (the id mismatch if the ids differ as well, otherwise
  \<^verbatim>\<open>buildpack.toml must provide version: <path>\<close>), and the only call it has made is
  the decode of the metadata: the check comes before \<^verbatim>\<open>CreateTGZFile\<close>.
\<close>

theorem buildpackLayer_empty_version:
  assumes dec: "toml_DecodeFile_BP env
                  (filepath_Join env [buildpackLayer_dir env (URI buildpack) builderDir,
                                      ''buildpack.toml'']) (world s) = (Inr bp, w')"
      and nov: "Version bp = []"
  shows "fst (buildpackLayer env dest buildpack builderDir s)
           = Inl (if Buildpack.ID buildpack \<noteq> BP.ID bp
                  then ''buildpack ids did not match: '' @ Buildpack.ID buildpack
                         @ '' != '' @ BP.ID bp
                  else ''buildpack.toml must provide version: ''
                         @ filepath_Join env
                             [buildpackLayer_dir env (URI buildpack) builderDir,
                              ''buildpack.toml''])
         \<and> events_since s (snd (buildpackLayer env dest buildpack builderDir s))
           = [DecodeFileCall
                (filepath_Join env [buildpackLayer_dir env (URI buildpack) builderDir,
                                    ''buildpack.toml'']) (Inr bp)]
         \<and> filter is_CreateTGZFileCall
              (events_since s (snd (buildpackLayer env dest buildpack builderDir s))) = []"
  using dec nov
  by (simp add: buildpackLayer_def call_def events_since_def Let_def)

theorem buildpackLayer_empty_version_witness:
  "fst (buildpackLayer demo_env_noversion ''/tmp/create-builder1'' demo_java ''/spec''
          demo_start)
     = Inl ''buildpack.toml must provide version: /spec/bp-java/buildpack.toml''
   \<and> filter is_CreateTGZFileCall
        (events_since demo_start
           (snd (buildpackLayer demo_env_noversion ''/tmp/create-builder1'' demo_java ''/spec''
                   demo_start))) = []"
proof -
  have dec: "toml_DecodeFile_BP demo_env_noversion
               (filepath_Join demo_env_noversion
                  [buildpackLayer_dir demo_env_noversion (URI demo_java) ''/spec'',
                   ''buildpack.toml'']) (world demo_start)
             = (Inr \<lparr>BP.ID = ''java'', Version = []\<rparr>, ())"
    by (simp add: demo_defs)
  have nov: "Version \<lparr>BP.ID = ''java'', Version = []\<rparr> = []"
    by simp
  from buildpackLayer_empty_version[OF dec nov, of "''/tmp/create-builder1''"]
  show ?thesis
    by (simp add: demo_defs buildpackLayer_dir_def TrimPrefix_def HasPrefix_def IsAbs_def)
qed

text \<open>
  C10. The id is checked before the version: metadata with both a different id and the
  empty version yields the id-mismatch error, not the missing-version error.
\<close>

theorem buildpackLayer_id_checked_before_version:
  assumes dec: "toml_DecodeFile_BP env
                  (filepath_Join env [buildpackLayer_dir env (URI buildpack) builderDir,
                                      ''buildpack.toml'']) (world s) = (Inr bp, w')"
      and ne: "Buildpack.ID buildpack \<noteq> BP.ID bp"
      and nov: "Version bp = []"
  shows "fst (buildpackLayer env dest buildpack builderDir s)
           = Inl (''buildpack ids did not match: '' @ Buildpack.ID buildpack
                    @ '' != '' @ BP.ID bp)
         \<and> fst (buildpackLayer env dest buildpack builderDir s)
           \<noteq> Inl (''buildpack.toml must provide version: ''
                    @ filepath_Join env
                        [buildpackLayer_dir env (URI buildpack) builderDir,
                         ''buildpack.toml''])"
  using dec ne nov
  by (simp add: buildpackLayer_def call_def Let_def)

theorem buildpackLayer_id_checked_before_version_witness:
  "fst (buildpackLayer demo_env_jvm_noversion ''/tmp/create-builder1'' demo_java ''/spec''
          demo_start)
     = Inl ''buildpack ids did not match: java != jvm''"
proof -
  have dec: "toml_DecodeFile_BP demo_env_jvm_noversion
               (filepath_Join demo_env_jvm_noversion
                  [buildpackLayer_dir demo_env_jvm_noversion (URI demo_java) ''/spec'',
                   ''buildpack.toml'']) (world demo_start)
             = (Inr \<lparr>BP.ID = ''jvm'', Version = []\<rparr>, ())"
    by (simp add: demo_defs)
  have ne: "Buildpack.ID demo_java \<noteq> BP.ID \<lparr>BP.ID = ''jvm'', Version = []\<rparr>"
    by (simp add: demo_defs)
  have nov: "Version \<lparr>BP.ID = ''jvm'', Version = []\<rparr> = []"
    by simp
  from buildpackLayer_id_checked_before_version[OF dec ne nov, of "''/tmp/create-builder1''"]
  show ?thesis
    by (simp add: demo_defs)
qed

section \<open>Module layers: the directory of a module\<close>

lemma TrimPrefix_no: "\<not> HasPrefix s p \<Longrightarrow> TrimPrefix s p = s"
  by (simp add: TrimPrefix_def)

lemma TrimPrefix_app: "TrimPrefix (p @ s) p = s"
  by (simp add: TrimPrefix_def HasPrefix_def)

lemma buildpackLayer_first_call:
  "\<exists>r rest. events_since s (snd (buildpackLayer env dest buildpack builderDir s))
      = DecodeFileCall
          (filepath_Join env [buildpackLayer_dir env (URI buildpack) builderDir,
                              ''buildpack.toml'']) r # rest"
  by (auto simp: buildpackLayer_def call_def events_since_def Let_def
           split: prod.splits sum.splits option.splits)

text \<open>
  C5. The directory of a module is its location with one leading \<^verbatim>\<open>file://\<close> removed,
  joined to the directory of builder.toml unless it is absolute. So a relative location
  without the prefix resolves to \<^verbatim>\<open>Join(specDir, location)\<close>, and \<^verbatim>\<open>file://\<close> followed
  by an absolute path resolves to that path whatever \<open>specDir\<close> is; the metadata is
  read from buildpack.toml in that directory.
\<close>

theorem buildpackLayer_dir_resolution:
  "buildpackLayer_dir env uri specDir
     = (if IsAbs (TrimPrefix uri ''file://'') then TrimPrefix uri ''file://''
        else filepath_Join env [specDir, TrimPrefix uri ''file://''])
   \<and> (\<not> IsAbs rel \<and> \<not> HasPrefix rel ''file://''
        \<longrightarrow> buildpackLayer_dir env rel specDir = filepath_Join env [specDir, rel])
   \<and> (IsAbs p \<longrightarrow> buildpackLayer_dir env (''file://'' @ p) specDir = p)
   \<and> buildpackLayer_dir env ''relative/path'' specDir
       = filepath_Join env [specDir, ''relative/path'']
   \<and> buildpackLayer_dir env ''file:///abs/path'' specDir = ''/abs/path''
   \<and> (\<exists>r rest. events_since s (snd (buildpackLayer env dest buildpack specDir s))
          = DecodeFileCall
              (filepath_Join env [buildpackLayer_dir env (URI buildpack) specDir,
                                  ''buildpack.toml'']) r # rest)"
proof -
  have a: "buildpackLayer_dir env u specDir
     = (if IsAbs (TrimPrefix u ''file://'') then TrimPrefix u ''file://''
        else filepath_Join env [specDir, TrimPrefix u ''file://''])" for u
    by (simp add: buildpackLayer_dir_def Let_def)
  have b: "\<not> IsAbs rel \<and> \<not> HasPrefix rel ''file://''
        \<longrightarrow> buildpackLayer_dir env rel specDir = filepath_Join env [specDir, rel]"
    by (simp add: a TrimPrefix_no)
  have c: "IsAbs p \<longrightarrow> buildpackLayer_dir env (''file://'' @ p) specDir = p"
    unfolding a TrimPrefix_app by simp
  have d: "buildpackLayer_dir env ''relative/path'' specDir
       = filepath_Join env [specDir, ''relative/path'']"
    by (simp add: a TrimPrefix_def HasPrefix_def IsAbs_def)
  have e: "buildpackLayer_dir env ''file:///abs/path'' specDir = ''/abs/path''"
    by (simp add: a TrimPrefix_def HasPrefix_def IsAbs_def)
  note f = buildpackLayer_first_call[of s env dest buildpack specDir]
  from a[of uri] b c d e f show ?thesis by (intro conjI)
qed

theorem buildpackLayer_dir_resolution_witness:
  "\<not> IsAbs ''bp-java'' \<and> \<not> HasPrefix ''bp-java'' ''file://'' \<and> IsAbs ''/opt/bp''
   \<and> buildpackLayer_dir demo_env ''bp-java'' ''/spec'' = ''/spec/bp-java''
   \<and> buildpackLayer_dir demo_env ''file:///opt/bp'' ''/spec'' = ''/opt/bp''"
proof -
  have h1: "\<not> IsAbs ''bp-java'' \<and> \<not> HasPrefix ''bp-java'' ''file://''"
    by (simp add: IsAbs_def HasPrefix_def)
  have h2: "IsAbs ''/opt/bp''"
    by (simp add: IsAbs_def)
  from buildpackLayer_dir_resolution
         [of demo_env "''bp-java''" "''/spec''" "''bp-java''" "''/opt/bp''"
             demo_start "''/tmp/create-builder1''" demo_java]
  have "buildpackLayer_dir demo_env ''bp-java'' ''/spec''
          = filepath_Join demo_env [''/spec'', ''bp-java'']"
    and "buildpackLayer_dir demo_env (''file://'' @ ''/opt/bp'') ''/spec'' = ''/opt/bp''"
    using h1 h2 by blast+
  with h1 h2 show ?thesis
    by (simp add: demo_env_def demo_Join_def)
qed

section \<open>Create: which steps a repository write follows\<close>

lemma length_module_appends: "length (module_appends env tmpDir img steps) = length steps"
  by (induction steps arbitrary: img) auto

lemma Create_loop_app:
  "Create_loop env tmpDir builderDir (xs @ ys) img s =
     (case Create_loop env tmpDir builderDir xs img s of
        (Inl e, s1) \<Rightarrow> (Inl e, s1)
      | (Inr img1, s1) \<Rightarrow> Create_loop env tmpDir builderDir ys img1 s1)"
  by (induction xs arbitrary: img s) (auto split: prod.splits sum.splits)

lemma Create_complete:
  fixes s :: "('w, ('img, 'repo) event) machine"
  assumes run: "Create env config s = (r, s')"
      and wr: "filter is_RepoWriteCall (events_since s s') \<noteq> []"
  shows "\<exists>tmpDir pre repo img res img0 steps post.
           events_since s s' = pre @ RepoWriteCall repo img res # post
           \<and> hd pre = TempDirCall [] ''create-builder'' (Inr tmpDir)
           \<and> filter is_RepoWriteCall pre = [] \<and> filter is_RepoWriteCall post = []
           \<and> filter is_AppendCall post = []
           \<and> map fst steps = Buildpacks config
           \<and> filter is_AppendCall pre
               = AppendCall (BaseImage config) (filepath_Join env [tmpDir, ''order.tar''])
                   (Inr img0)
                 # module_appends env tmpDir img0 steps
           \<and> img = final_image img0 steps
           \<and> Repo config = Some repo \<and> r = Returns res
           \<and> (\<exists>s1 orderTar s2 s3 s4.
                 call (ioutil_TempDir env [] ''create-builder'')
                      (TempDirCall [] ''create-builder'') s = (Inr tmpDir, s1)
                 \<and> orderLayer env tmpDir (Groups config) s1 = (Inr orderTar, s2)
                 \<and> call (img_Append env (BaseImage config) orderTar)
                          (AppendCall (BaseImage config) orderTar) s2 = (Inr img0, s3)
                 \<and> Create_loop env tmpDir (BuilderDir config) (Buildpacks config) img0 s3
                     = (Inr img, s4))"
proof -
  from Create_trace[OF run] wr obtain tmpDir s1 s6 body rr where
    td: "call (ioutil_TempDir env [] ''create-builder'')
              (TempDirCall [] ''create-builder'') s = (Inr tmpDir, s1)"
    and bd: "Create_body env config tmpDir s1 = (r, s6)"
    and body: "trace s6 = trace s1 @ body"
    and ev: "events_since s s'
               = TempDirCall [] ''create-builder'' (Inr tmpDir) # body @ [RemoveCall tmpDir rr]"
    by auto
  from wr ev have wb: "filter is_RepoWriteCall body \<noteq> []" by simp
  from Create_body_trace[OF bd] body wb obtain pre repo img res img0 steps post where
    b: "body = pre @ RepoWriteCall repo img res # post"
       "filter is_RepoWriteCall pre = []" "map fst steps = Buildpacks config"
       "filter is_AppendCall pre
          = AppendCall (BaseImage config) (filepath_Join env [tmpDir, ''order.tar'']) (Inr img0)
            # module_appends env tmpDir img0 steps"
       "img = final_image img0 steps" "Repo config = Some repo" "r = Returns res"
       "list_all is_PrintlnCall post"
    and st: "\<exists>orderTar s2 s3 s4.
                 orderLayer env tmpDir (Groups config) s1 = (Inr orderTar, s2)
                 \<and> call (img_Append env (BaseImage config) orderTar)
                          (AppendCall (BaseImage config) orderTar) s2 = (Inr img0, s3)
                 \<and> Create_loop env tmpDir (BuilderDir config) (Buildpacks config) img0 s3
                     = (Inr img, s4)"
    by auto
  note pf = println_filters[OF b(8)]
  let ?pre = "TempDirCall [] ''create-builder'' (Inr tmpDir) # pre"
  let ?post = "post @ [RemoveCall tmpDir rr]"
  have 1: "events_since s s' = ?pre @ RepoWriteCall repo img res # ?post"
    using ev b(1) by simp
  have 2: "hd ?pre = TempDirCall [] ''create-builder'' (Inr tmpDir)" by simp
  have 3: "filter is_RepoWriteCall ?pre = []" "filter is_RepoWriteCall ?post = []"
    "filter is_AppendCall ?post = []"
    using b(2) pf by simp_all
  have 4: "filter is_AppendCall ?pre
               = AppendCall (BaseImage config) (filepath_Join env [tmpDir, ''order.tar''])
                   (Inr img0)
                 # module_appends env tmpDir img0 steps"
    using b(4) by simp
  have 5: "\<exists>s1 orderTar s2 s3 s4.
                 call (ioutil_TempDir env [] ''create-builder'')
                      (TempDirCall [] ''create-builder'') s = (Inr tmpDir, s1)
                 \<and> orderLayer env tmpDir (Groups config) s1 = (Inr orderTar, s2)
                 \<and> call (img_Append env (BaseImage config) orderTar)
                          (AppendCall (BaseImage config) orderTar) s2 = (Inr img0, s3)
                 \<and> Create_loop env tmpDir (BuilderDir config) (Buildpacks config) img0 s3
                     = (Inr img, s4)"
    using td st by blast
  show ?thesis
    apply (rule exI[of _ tmpDir], rule exI[of _ ?pre], rule exI[of _ repo],
           rule exI[of _ img], rule exI[of _ res], rule exI[of _ img0],
           rule exI[of _ steps], rule exI[of _ ?post])
    using 1 2 3 4 5 b(3,5,6,7) by (intro conjI)
qed

lemma step_fails_result:
  assumes run: "Create env config s = (r, s')"
      and sf: "step_fails env config s e"
  shows "r = Returns (Some e)"
  using sf
proof cases
  case (temp_dir e0 s1)
  with run show ?thesis by (simp add: Create_def)
next
  case (order_layer tmpDir s1 e0 s2)
  with run show ?thesis
    by (auto simp: Create_def Create_body_def split: prod.splits)
next
  case (order_append tmpDir s1 orderTar s2 e0 s3)
  with run show ?thesis
    by (auto simp: Create_def Create_body_def split: prod.splits)
next
  case (module_layer tmpDir s1 orderTar s2 img0 s3 done' buildpack rest img s4 e0 s5)
  then have "Create_loop env tmpDir (BuilderDir config) (Buildpacks config) img0 s3
               = (Inl e, s5)"
    by (simp add: Create_loop_app)
  with run module_layer(2,3,4) show ?thesis
    by (auto simp: Create_def Create_body_def split: prod.splits)
next
  case (module_append tmpDir s1 orderTar s2 img0 s3 done' buildpack rest img s4 tarFile s5 e0 s6)
  then have "Create_loop env tmpDir (BuilderDir config) (Buildpacks config) img0 s3
               = (Inl e, s6)"
    by (simp add: Create_loop_app)
  with run module_append(2,3,4) show ?thesis
    by (auto simp: Create_def Create_body_def split: prod.splits)
qed

lemma step_fails_not_complete:
  assumes sf: "step_fails env config s e"
      and td: "call (ioutil_TempDir env [] ''create-builder'')
                    (TempDirCall [] ''create-builder'') s = (Inr tmpDir, s1)"
      and ol: "orderLayer env tmpDir (Groups config) s1 = (Inr orderTar, s2)"
      and ap: "call (img_Append env (BaseImage config) orderTar)
                    (AppendCall (BaseImage config) orderTar) s2 = (Inr img0, s3)"
      and lp: "Create_loop env tmpDir (BuilderDir config) (Buildpacks config) img0 s3
                 = (Inr img, s4)"
  shows False
  using sf
proof cases
  case (temp_dir e0 s1')
  with td show ?thesis by simp
next
  case (order_layer tmpDir' s1' e0 s2')
  with td ol show ?thesis by simp
next
  case (order_append tmpDir' s1' orderTar' s2' e0 s3')
  with td ol ap show ?thesis by simp
next
  case (module_layer tmpDir' s1' orderTar' s2' img0' s3' done' buildpack rest img' s4' e0 s5')
  with td ol ap have "Create_loop env tmpDir (BuilderDir config) (Buildpacks config) img0 s3
               = (Inl e, s5')"
    by (simp add: Create_loop_app)
  with lp show ?thesis by simp
next
  case (module_append tmpDir' s1' orderTar' s2' img0' s3' done' buildpack rest img' s4'
          tarFile s5' e0 s6')
  with td ol ap have "Create_loop env tmpDir (BuilderDir config) (Buildpacks config) img0 s3
               = (Inl e, s6')"
    by (simp add: Create_loop_app)
  with lp show ?thesis by simp
qed

text \<open>
  C1. A run of \<^verbatim>\<open>Create\<close> that returns \<^verbatim>\<open>nil\<close> has made exactly N+1 calls of
  \<^verbatim>\<open>img.Append\<close>, N the number of entries of \<^verbatim>\<open>Buildpacks\<close>, all successful:
  first the order layer \<^verbatim>\<open>order.tar\<close> on the base image, then one layer per entry
  in the order of the list (the archive named after the entry's id and version), each
  on the image the append before it returned; and the one repository write is of the
  image the last append returned.
\<close>

theorem Create_appends_layers_in_order:
  fixes s :: "('w, ('img, 'repo) event) machine"
  assumes run: "Create env config s = (Returns None, s')"
  shows "\<exists>tmpDir img0 steps.
           hd (events_since s s') = TempDirCall [] ''create-builder'' (Inr tmpDir)
           \<and> map fst steps = Buildpacks config
           \<and> filter is_AppendCall (events_since s s')
               = AppendCall (BaseImage config) (filepath_Join env [tmpDir, ''order.tar''])
                   (Inr img0)
                 # module_appends env tmpDir img0 steps
           \<and> length (filter is_AppendCall (events_since s s'))
               = length (Buildpacks config) + 1
           \<and> (\<exists>repo. filter is_RepoWriteCall (events_since s s')
                         = [RepoWriteCall repo (final_image img0 steps) None])"
proof -
  have wr: "filter is_RepoWriteCall (events_since s s') \<noteq> []"
  proof -
    from Create_trace[OF run] obtain tmpDir s1 s6 body rr where
      bd: "Create_body env config tmpDir s1 = (Returns None, s6)"
      and body: "trace s6 = trace s1 @ body"
      and ev: "events_since s s'
               = TempDirCall [] ''create-builder'' (Inr tmpDir) # body @ [RemoveCall tmpDir rr]"
      by auto
    from Create_body_trace[OF bd] body have "filter is_RepoWriteCall body \<noteq> []" by auto
    with ev show ?thesis by simp
  qed
  from Create_complete[OF run wr] obtain tmpDir pre repo img res img0 steps post where
    c: "events_since s s' = pre @ RepoWriteCall repo img res # post"
       "hd pre = TempDirCall [] ''create-builder'' (Inr tmpDir)"
       "filter is_RepoWriteCall pre = []" "filter is_RepoWriteCall post = []"
       "filter is_AppendCall post = []" "map fst steps = Buildpacks config"
       "filter is_AppendCall pre
               = AppendCall (BaseImage config) (filepath_Join env [tmpDir, ''order.tar''])
                   (Inr img0)
                 # module_appends env tmpDir img0 steps"
       "img = final_image img0 steps" "Returns None = Returns res"
    by blast
  from c(7) have ne: "pre \<noteq> []" by auto
  have 1: "hd (events_since s s') = TempDirCall [] ''create-builder'' (Inr tmpDir)"
    using c(1,2) ne by simp
  have 2: "filter is_AppendCall (events_since s s')
               = AppendCall (BaseImage config) (filepath_Join env [tmpDir, ''order.tar''])
                   (Inr img0)
                 # module_appends env tmpDir img0 steps"
    using c(1,5,7) by simp
  have 3: "length (filter is_AppendCall (events_since s s')) = length (Buildpacks config) + 1"
    unfolding 2 using c(6) length_module_appends[of env tmpDir img0 steps]
    by (simp add: length_map[of fst steps, symmetric] del: length_map)
  have 4: "\<exists>repo. filter is_RepoWriteCall (events_since s s')
                         = [RepoWriteCall repo (final_image img0 steps) None]"
    using c(1,3,4,8,9) by simp
  show ?thesis
    apply (rule exI[of _ tmpDir], rule exI[of _ img0], rule exI[of _ steps])
    using 1 2 3 4 c(6) by (intro conjI)
qed

theorem Create_appends_layers_in_order_witness:
  "fst (Create demo_env demo_config demo_start) = Returns None
   \<and> length (filter is_AppendCall
        (events_since demo_start (snd (Create demo_env demo_config demo_start)))) = 2"
proof -
  have ok: "fst (Create demo_env demo_config demo_start) = Returns None"
    by (simp add: run_defs demo_defs)
  then have run: "Create demo_env demo_config demo_start
               = (Returns None, snd (Create demo_env demo_config demo_start))"
    by (simp add: prod_eq_iff)
  from Create_appends_layers_in_order[OF run]
  have "length (filter is_AppendCall
          (events_since demo_start (snd (Create demo_env demo_config demo_start))))
        = length (Buildpacks demo_config) + 1"
    by blast
  with ok show ?thesis by (simp add: demo_config_def)
qed

text \<open>
  C2. In every run of \<^verbatim>\<open>Create\<close>: if a step before the repository write fails (the
  temporary directory, the order layer, its append, the layer of some module or its
  append), \<^verbatim>\<open>Create\<close> returns that failure in its context message and
  \<^verbatim>\<open>Repo.Write\<close> is not called; and when \<^verbatim>\<open>Repo.Write\<close> is called, it is called once,
  behind the N+1 successful appends of the order layer and of all N module layers, on
  the image they produced, and \<^verbatim>\<open>Create\<close> returns what the write returned.
\<close>

theorem Create_writes_only_complete_image:
  fixes s :: "('w, ('img, 'repo) event) machine"
  assumes run: "Create env config s = (r, s')"
  shows "(\<forall>e. step_fails env config s e \<longrightarrow>
            r = Returns (Some e) \<and> filter is_RepoWriteCall (events_since s s') = [])
       \<and> (\<forall>repo img res. RepoWriteCall repo img res \<in> set (events_since s s') \<longrightarrow>
            (\<exists>tmpDir pre post img0 steps.
               events_since s s' = pre @ RepoWriteCall repo img res # post
               \<and> filter is_RepoWriteCall pre = [] \<and> filter is_RepoWriteCall post = []
               \<and> filter is_AppendCall post = []
               \<and> map fst steps = Buildpacks config
               \<and> filter is_AppendCall pre
                   = AppendCall (BaseImage config) (filepath_Join env [tmpDir, ''order.tar''])
                       (Inr img0)
                     # module_appends env tmpDir img0 steps
               \<and> length (filter is_AppendCall pre) = length (Buildpacks config) + 1
               \<and> img = final_image img0 steps
               \<and> r = Returns res))"
proof (intro conjI allI impI)
  fix e assume sf: "step_fails env config s e"
  show "r = Returns (Some e)" using step_fails_result[OF run sf] .
  show "filter is_RepoWriteCall (events_since s s') = []"
  proof (rule ccontr)
    assume wr: "filter is_RepoWriteCall (events_since s s') \<noteq> []"
    from Create_complete[OF run wr] step_fails_not_complete[OF sf]
    show False by blast
  qed
next
  fix repo img res
  assume mem: "RepoWriteCall repo img res \<in> set (events_since s s')"
  then have memf:
    "RepoWriteCall repo img res \<in> set (filter is_RepoWriteCall (events_since s s'))"
    by simp
  have wr: "filter is_RepoWriteCall (events_since s s') \<noteq> []"
  proof
    assume "filter is_RepoWriteCall (events_since s s') = []"
    with memf show False by simp
  qed
  from Create_complete[OF run wr] obtain tmpDir pre repo' img' res' img0 steps post where
    c: "events_since s s' = pre @ RepoWriteCall repo' img' res' # post"
       "filter is_RepoWriteCall pre = []" "filter is_RepoWriteCall post = []"
       "filter is_AppendCall post = []" "map fst steps = Buildpacks config"
       "filter is_AppendCall pre
               = AppendCall (BaseImage config) (filepath_Join env [tmpDir, ''order.tar''])
                   (Inr img0)
                 # module_appends env tmpDir img0 steps"
       "img' = final_image img0 steps" "r = Returns res'"
    by blast
  have "filter is_RepoWriteCall (events_since s s') = [RepoWriteCall repo' img' res']"
    using c(1,2,3) by simp
  with memf have eq: "repo = repo'" "img = img'" "res = res'"
    by simp_all
  have len: "length (filter is_AppendCall pre) = length (Buildpacks config) + 1"
    unfolding c(6) using c(5) length_module_appends[of env tmpDir img0 steps]
    by (simp add: length_map[of fst steps, symmetric] del: length_map)
  show "\<exists>tmpDir pre post img0 steps.
               events_since s s' = pre @ RepoWriteCall repo img res # post
               \<and> filter is_RepoWriteCall pre = [] \<and> filter is_RepoWriteCall post = []
               \<and> filter is_AppendCall post = []
               \<and> map fst steps = Buildpacks config
               \<and> filter is_AppendCall pre
                   = AppendCall (BaseImage config) (filepath_Join env [tmpDir, ''order.tar''])
                       (Inr img0)
                     # module_appends env tmpDir img0 steps
               \<and> length (filter is_AppendCall pre) = length (Buildpacks config) + 1
               \<and> img = final_image img0 steps
               \<and> r = Returns res"
    apply (rule exI[of _ tmpDir], rule exI[of _ pre], rule exI[of _ post],
           rule exI[of _ img0], rule exI[of _ steps])
    using c eq len by (intro conjI) simp_all
qed

theorem Create_writes_only_complete_image_witness:
  "fst (Create demo_env_jvm demo_config demo_start)
     = Returns (Some (''failed generate layer for buildpack '' @ dquote @ ''java'' @ dquote
                        @ '': buildpack ids did not match: java != jvm''))
   \<and> filter is_RepoWriteCall
        (events_since demo_start (snd (Create demo_env_jvm demo_config demo_start))) = []
   \<and> RepoWriteCall ''myorg/builder''
        (Some [''/tmp/create-builder1/order.tar'', ''/tmp/create-builder1/java.1.0.0.tar''])
        None
       \<in> set (events_since demo_start (snd (Create demo_env demo_config demo_start)))
   \<and> fst (Create demo_env demo_config demo_start) = Returns None"
proof -
  define s1 where "s1 = snd (call (ioutil_TempDir demo_env_jvm [] ''create-builder'')
                                  (TempDirCall [] ''create-builder'') demo_start)"
  define s2 where "s2 = snd (orderLayer demo_env_jvm ''/tmp/create-builder1''
                               (Groups demo_config) s1)"
  define s3 where "s3 = snd (call (img_Append demo_env_jvm (BaseImage demo_config)
                                     ''/tmp/create-builder1/order.tar'')
                                  (AppendCall (BaseImage demo_config)
                                     ''/tmp/create-builder1/order.tar'') s2)"
  define s5 where "s5 = snd (buildpackLayer demo_env_jvm ''/tmp/create-builder1'' demo_java
                               (BuilderDir demo_config) s3)"
  have td: "call (ioutil_TempDir demo_env_jvm [] ''create-builder'')
                 (TempDirCall [] ''create-builder'') demo_start
              = (Inr ''/tmp/create-builder1'', s1)"
    by (simp add: s1_def call_def demo_defs)
  have ol: "orderLayer demo_env_jvm ''/tmp/create-builder1'' (Groups demo_config) s1
              = (Inr ''/tmp/create-builder1/order.tar'', s2)"
    by (simp add: s2_def s1_def run_defs demo_defs)
  have ap: "call (img_Append demo_env_jvm (BaseImage demo_config)
                    ''/tmp/create-builder1/order.tar'')
                 (AppendCall (BaseImage demo_config) ''/tmp/create-builder1/order.tar'') s2
              = (Inr (Some [''/tmp/create-builder1/order.tar'']), s3)"
    by (simp add: s3_def call_def demo_defs)
  have bps: "Buildpacks demo_config = [] @ demo_java # []"
    by (simp add: demo_defs)
  have lp: "Create_loop demo_env_jvm ''/tmp/create-builder1'' (BuilderDir demo_config) []
              (Some [''/tmp/create-builder1/order.tar'']) s3
              = (Inr (Some [''/tmp/create-builder1/order.tar'']), s3)"
    by simp
  have bl: "buildpackLayer demo_env_jvm ''/tmp/create-builder1'' demo_java
              (BuilderDir demo_config) s3
              = (Inl ''buildpack ids did not match: java != jvm'', s5)"
    by (simp add: s5_def buildpackLayer_def call_def Let_def demo_defs)
  have sf: "step_fails demo_env_jvm demo_config demo_start
              (''failed generate layer for buildpack '' @ dquote @ ''java'' @ dquote
                 @ '': buildpack ids did not match: java != jvm'')"
    using step_fails.module_layer[OF td ol ap bps lp bl] by (simp add: demo_java_def)
  have run: "Create demo_env_jvm demo_config demo_start
               = (fst (Create demo_env_jvm demo_config demo_start),
                  snd (Create demo_env_jvm demo_config demo_start))"
    by simp
  have a: "fst (Create demo_env_jvm demo_config demo_start)
             = Returns (Some (''failed generate layer for buildpack '' @ dquote @ ''java''
                                @ dquote @ '': buildpack ids did not match: java != jvm''))
           \<and> filter is_RepoWriteCall
                (events_since demo_start (snd (Create demo_env_jvm demo_config demo_start)))
              = []"
    using Create_writes_only_complete_image[OF run] sf by blast
  have mem: "RepoWriteCall ''myorg/builder''
        (Some [''/tmp/create-builder1/order.tar'', ''/tmp/create-builder1/java.1.0.0.tar''])
        None
       \<in> set (events_since demo_start (snd (Create demo_env demo_config demo_start)))"
    by (simp add: run_defs demo_defs)
  have run2: "Create demo_env demo_config demo_start
               = (fst (Create demo_env demo_config demo_start),
                  snd (Create demo_env demo_config demo_start))"
    by simp
  have b: "fst (Create demo_env demo_config demo_start) = Returns None"
    using Create_writes_only_complete_image[OF run2] mem by blast
  from a mem b show ?thesis by blast
qed

section \<open>Create: the temporary directory\<close>

lemma orderLayer_os_Remove:
  "orderLayer (env\<lparr>os_Remove := rm\<rparr>) dest groups s = orderLayer env dest groups s"
  by (simp add: orderLayer_def toml_Encode_def Let_def
           split: prod.splits sum.splits option.splits)

lemma buildpackLayer_os_Remove:
  "buildpackLayer (env\<lparr>os_Remove := rm\<rparr>) dest buildpack builderDir s
     = buildpackLayer env dest buildpack builderDir s"
  by (simp add: buildpackLayer_def buildpackLayer_dir_def Let_def
           split: prod.splits sum.splits option.splits)

lemma Create_loop_os_Remove:
  "Create_loop (env\<lparr>os_Remove := rm\<rparr>) tmpDir builderDir bps img s
     = Create_loop env tmpDir builderDir bps img s"
  by (induction bps arbitrary: img s)
     (simp_all add: buildpackLayer_os_Remove split: prod.splits sum.splits)

lemma Create_body_os_Remove:
  "Create_body (env\<lparr>os_Remove := rm\<rparr>) config tmpDir s = Create_body env config tmpDir s"
  by (simp add: Create_body_def orderLayer_os_Remove Create_loop_os_Remove println_def
           split: prod.splits sum.splits option.splits)

text \<open>
  C6, as stated, fails: a failing \<^verbatim>\<open>os.Remove\<close> is not logged. In this run the
  directory cannot be made, the removal of the temporary directory fails as well, and
  the logger is never called.
\<close>

theorem Create_remove_failure_not_logged:
  "trace (snd (Create demo_env_io_fails demo_config demo_start))
     = [TempDirCall [] ''create-builder'' (Inr ''/tmp/create-builder1''),
        MkdirCall ''/tmp/create-builder1/buildpack'' 493 (Some ''permission denied''),
        RemoveCall ''/tmp/create-builder1'' (Some ''directory not empty'')]
   \<and> filter is_PrintlnCall (trace (snd (Create demo_env_io_fails demo_config demo_start)))
     = []"
  by (simp add: run_defs demo_defs)

text \<open>
  C6, amended. In every run of \<^verbatim>\<open>Create\<close> that gets past \<^verbatim>\<open>ioutil.TempDir\<close>,
  \<^verbatim>\<open>os.Remove(tmpDir)\<close> is called exactly once, as the last call of the run, on every
  exit path; what it returns is dropped: whatever \<^verbatim>\<open>os.Remove\<close> does, \<^verbatim>\<open>Create\<close>
  returns the same result, and nothing is logged behind it.
\<close>

theorem Create_removes_tmpDir_on_every_path:
  fixes s :: "('w, ('img, 'repo) event) machine"
  assumes td: "call (ioutil_TempDir env [] ''create-builder'')
                    (TempDirCall [] ''create-builder'') s = (Inr tmpDir, s1)"
  shows "(\<exists>body rr. events_since s (snd (Create env config s))
                      = TempDirCall [] ''create-builder'' (Inr tmpDir) # body
                        @ [RemoveCall tmpDir rr]
                    \<and> filter is_RemoveCall body = [])
       \<and> fst (Create (env\<lparr>os_Remove := rm\<rparr>) config s) = fst (Create env config s)"
proof
  have run: "Create env config s = (fst (Create env config s), snd (Create env config s))"
    by simp
  from Create_trace[OF run] td obtain s6 body rr where
    bd: "Create_body env config tmpDir s1 = (fst (Create env config s), s6)"
    and body: "trace s6 = trace s1 @ body"
    and ev: "events_since s (snd (Create env config s))
               = TempDirCall [] ''create-builder'' (Inr tmpDir) # body @ [RemoveCall tmpDir rr]"
    by auto
  from Create_body_trace[OF bd] body have "filter is_RemoveCall body = []" by auto
  with ev show "\<exists>body rr. events_since s (snd (Create env config s))
                      = TempDirCall [] ''create-builder'' (Inr tmpDir) # body
                        @ [RemoveCall tmpDir rr]
                    \<and> filter is_RemoveCall body = []"
    by blast
next
  have td': "call (ioutil_TempDir (env\<lparr>os_Remove := rm\<rparr>) [] ''create-builder'')
                  (TempDirCall [] ''create-builder'') s = (Inr tmpDir, s1)"
    using td by simp
  show "fst (Create (env\<lparr>os_Remove := rm\<rparr>) config s) = fst (Create env config s)"
    unfolding Create_def td td' Create_body_os_Remove
    by (simp add: call_def split: prod.splits)
qed

theorem Create_removes_tmpDir_on_every_path_witness:
  "events_since demo_start (snd (Create demo_env_io_fails demo_config demo_start))
     = [TempDirCall [] ''create-builder'' (Inr ''/tmp/create-builder1''),
        MkdirCall ''/tmp/create-builder1/buildpack'' 493 (Some ''permission denied''),
        RemoveCall ''/tmp/create-builder1'' (Some ''directory not empty'')]
   \<and> fst (Create (demo_env_io_fails\<lparr>os_Remove := (\<lambda>p w. (None, w))\<rparr>) demo_config demo_start)
     = fst (Create demo_env_io_fails demo_config demo_start)"
proof -
  have td: "call (ioutil_TempDir demo_env_io_fails [] ''create-builder'')
                 (TempDirCall [] ''create-builder'') demo_start
              = (Inr ''/tmp/create-builder1'',
                 snd (call (ioutil_TempDir demo_env_io_fails [] ''create-builder'')
                           (TempDirCall [] ''create-builder'') demo_start))"
    by (simp add: call_def demo_defs)
  from Create_removes_tmpDir_on_every_path[OF td, of demo_config "\<lambda>p w. (None, w)"]
  have "fst (Create (demo_env_io_fails\<lparr>os_Remove := (\<lambda>p w. (None, w))\<rparr>) demo_config
               demo_start)
          = fst (Create demo_env_io_fails demo_config demo_start)"
    by blast
  then show ?thesis by (simp add: run_defs demo_defs)
qed

section \<open>Create: no modules\<close>

text \<open>
  C9. With an empty \<^verbatim>\<open>Buildpacks\<close> list, \<^verbatim>\<open>Create\<close> succeeds as soon as the temporary
  directory, the order layer, its append and the repository write do: it returns
  \<^verbatim>\<open>nil\<close>, has appended exactly one layer, the order layer, to the base image, has
  written the image that append returned, and has read no module metadata (the loop
  body is not entered).
\<close>

theorem Create_empty_buildpacks:
  fixes s :: "('w, ('img, 'repo) event) machine"
  assumes nil: "Buildpacks config = []"
      and td: "call (ioutil_TempDir env [] ''create-builder'')
                    (TempDirCall [] ''create-builder'') s = (Inr tmpDir, s1)"
      and ol: "orderLayer env tmpDir (Groups config) s1 = (Inr orderTar, s2)"
      and ap: "call (img_Append env (BaseImage config) orderTar)
                    (AppendCall (BaseImage config) orderTar) s2 = (Inr img, s3)"
      and repo: "Repo config = Some repo"
      and wr: "call (Store_Write env repo img) (RepoWriteCall repo img) s3 = (None, s4)"
  shows "fst (Create env config s) = Returns None
       \<and> filter is_AppendCall (events_since s (snd (Create env config s)))
           = [AppendCall (BaseImage config) orderTar (Inr img)]
       \<and> filter is_RepoWriteCall (events_since s (snd (Create env config s)))
           = [RepoWriteCall repo img None]
       \<and> filter is_DecodeFileCall (events_since s (snd (Create env config s))) = []"
proof -
  let ?s5 = "println env
               [''Tip: Run '' @ dquote
                @ ''pack build <image name> --builder <builder image> --path <app source code>''
                @ dquote @ '' to use this builder'']
               (println env [[]]
                 (println env [''Successfully created builder image:'',
                               BuilderConfig.RepoName config] s4))"
  obtain rr s7 where rm: "call (os_Remove env tmpDir) (RemoveCall tmpDir) ?s5 = (rr, s7)"
    by (cases "call (os_Remove env tmpDir) (RemoveCall tmpDir) ?s5")
  have bd: "Create_body env config tmpDir s1 = (Returns None, ?s5)"
    using nil ol ap repo wr by (simp add: Create_body_def)
  have run: "Create env config s = (Returns None, s7)"
    using td bd rm by (simp add: Create_def)
  from orderLayer_trace[OF ol] obtain e1 where
    e1: "trace s2 = trace s1 @ e1" "list_all fs_event e1" "filter is_DecodeFileCall e1 = []"
    by blast
  note f1 = fs_event_filters[OF e1(2)]
  have "trace s7 = trace s @ TempDirCall [] ''create-builder'' (Inr tmpDir) # e1
          @ [AppendCall (BaseImage config) orderTar (Inr img), RepoWriteCall repo img None,
             PrintlnCall [''Successfully created builder image:'',
                          BuilderConfig.RepoName config],
             PrintlnCall [[]],
             PrintlnCall [''Tip: Run '' @ dquote
                @ ''pack build <image name> --builder <builder image> --path <app source code>''
                @ dquote @ '' to use this builder''],
             RemoveCall tmpDir rr]"
    using call_trace[OF td] e1(1) call_trace[OF ap] call_trace[OF wr] call_trace[OF rm]
    by (simp add: println_trace)
  then have ev: "events_since s s7 = TempDirCall [] ''create-builder'' (Inr tmpDir) # e1
          @ [AppendCall (BaseImage config) orderTar (Inr img), RepoWriteCall repo img None,
             PrintlnCall [''Successfully created builder image:'',
                          BuilderConfig.RepoName config],
             PrintlnCall [[]],
             PrintlnCall [''Tip: Run '' @ dquote
                @ ''pack build <image name> --builder <builder image> --path <app source code>''
                @ dquote @ '' to use this builder''],
             RemoveCall tmpDir rr]"
    by (rule events_since_app)
  show ?thesis
    unfolding run fst_conv snd_conv ev using f1 e1(3) by simp
qed

theorem Create_empty_buildpacks_witness:
  "fst (Create demo_env demo_config_empty demo_start) = Returns None
   \<and> filter is_AppendCall
        (events_since demo_start (snd (Create demo_env demo_config_empty demo_start)))
     = [AppendCall (Some []) ''/tmp/create-builder1/order.tar''
          (Inr (Some [''/tmp/create-builder1/order.tar'']))]
   \<and> filter is_RepoWriteCall
        (events_since demo_start (snd (Create demo_env demo_config_empty demo_start)))
     = [RepoWriteCall ''myorg/builder'' (Some [''/tmp/create-builder1/order.tar'']) None]"
proof -
  define s1 where "s1 = snd (call (ioutil_TempDir demo_env [] ''create-builder'')
                                  (TempDirCall [] ''create-builder'') demo_start)"
  define s2 where "s2 = snd (orderLayer demo_env ''/tmp/create-builder1''
                               (Groups demo_config_empty) s1)"
  define s3 where "s3 = snd (call (img_Append demo_env (BaseImage demo_config_empty)
                                     ''/tmp/create-builder1/order.tar'')
                                  (AppendCall (BaseImage demo_config_empty)
                                     ''/tmp/create-builder1/order.tar'') s2)"
  define s4 where "s4 = snd (call (Store_Write demo_env ''myorg/builder''
                                     (Some [''/tmp/create-builder1/order.tar'']))
                                  (RepoWriteCall ''myorg/builder''
                                     (Some [''/tmp/create-builder1/order.tar''])) s3)"
  have nil: "Buildpacks demo_config_empty = []"
    by (simp add: demo_defs)
  have td: "call (ioutil_TempDir demo_env [] ''create-builder'')
                 (TempDirCall [] ''create-builder'') demo_start
              = (Inr ''/tmp/create-builder1'', s1)"
    by (simp add: s1_def call_def demo_defs)
  have ol: "orderLayer demo_env ''/tmp/create-builder1'' (Groups demo_config_empty) s1
              = (Inr ''/tmp/create-builder1/order.tar'', s2)"
    by (simp add: s2_def s1_def run_defs demo_defs)
  have ap: "call (img_Append demo_env (BaseImage demo_config_empty)
                    ''/tmp/create-builder1/order.tar'')
                 (AppendCall (BaseImage demo_config_empty) ''/tmp/create-builder1/order.tar'')
                 s2
              = (Inr (Some [''/tmp/create-builder1/order.tar'']), s3)"
    by (simp add: s3_def call_def demo_defs)
  have repo: "Repo demo_config_empty = Some ''myorg/builder''"
    by (simp add: demo_defs)
  have wr: "call (Store_Write demo_env ''myorg/builder''
                    (Some [''/tmp/create-builder1/order.tar'']))
                 (RepoWriteCall ''myorg/builder'' (Some [''/tmp/create-builder1/order.tar'']))
                 s3
              = (None, s4)"
    by (simp add: s4_def call_def demo_defs)
  from Create_empty_buildpacks[OF nil td ol ap repo wr]
  show ?thesis by (simp add: demo_config_empty_def demo_config_def)
qed

section \<open>BuilderConfigFromFlags: pulling the base image\<close>

lemma BuilderConfigFromFlags_load_trace:
  fixes s1 :: "('w, ('img, 'repo) event) machine"
  shows "\<exists>evs. trace (snd (BuilderConfigFromFlags_load env flags baseImage s1)) = trace s1 @ evs
           \<and> filter is_PullImageCall evs = []"
proof -
  obtain rd s2 where d: "call (toml_DecodeFile_Builder env (BuilderTomlPath flags)
                   (BuilderConfig_named (CreateBuilderFlags.RepoName flags)))
                (\<lambda>r. DecodeBuilderCall (BuilderTomlPath flags)
                       (case r of Inl e \<Rightarrow> Some e | Inr _ \<Rightarrow> None)) s1 = (rd, s2)"
    by (cases "call (toml_DecodeFile_Builder env (BuilderTomlPath flags)
                   (BuilderConfig_named (CreateBuilderFlags.RepoName flags)))
                (\<lambda>r. DecodeBuilderCall (BuilderTomlPath flags)
                       (case r of Inl e \<Rightarrow> Some e | Inr _ \<Rightarrow> None)) s1")
  obtain ri s3 where i: "call (Images_ReadImage env baseImage (\<not> Publish flags))
                     (ReadImageCall baseImage (\<not> Publish flags)) s2 = (ri, s3)"
    by (cases "call (Images_ReadImage env baseImage (\<not> Publish flags))
                     (ReadImageCall baseImage (\<not> Publish flags)) s2")
  obtain rs s4 where st: "call (Images_RepoStore env (CreateBuilderFlags.RepoName flags)
                             (\<not> Publish flags))
                          (RepoStoreCall (CreateBuilderFlags.RepoName flags)
                             (\<not> Publish flags)) s3 = (rs, s4)"
    by (cases "call (Images_RepoStore env (CreateBuilderFlags.RepoName flags)
                             (\<not> Publish flags))
                          (RepoStoreCall (CreateBuilderFlags.RepoName flags)
                             (\<not> Publish flags)) s3")
  note t2 = call_trace[OF d] and t3 = call_trace[OF i] and t4 = call_trace[OF st]
  have "snd (BuilderConfigFromFlags_load env flags baseImage s1) \<in> {s2, s3, s4}"
    using d i st
    by (simp add: BuilderConfigFromFlags_load_def split: sum.splits option.splits)
  then show ?thesis using t2 t3 t4 by auto
qed

lemma BuilderConfigFromFlags_pulls:
  fixes s :: "('w, ('img, 'repo) event) machine"
  assumes name: "baseImageName env (StackID flags) (CreateBuilderFlags.RepoName flags)
                   = Inr baseImage"
  shows "filter is_PullImageCall (events_since s (snd (BuilderConfigFromFlags env flags s)))
     = (if \<not> NoPull flags \<and> \<not> Publish flags then
          [PullImageCall baseImage
             (fst (Docker_PullImage env baseImage
                     (world (println env [''Pulling builder base image '', baseImage] s))))]
        else [])"
proof (cases "\<not> NoPull flags \<and> \<not> Publish flags")
  case False
  then have eq: "BuilderConfigFromFlags env flags s
                   = BuilderConfigFromFlags_load env flags baseImage s"
    by (auto simp: BuilderConfigFromFlags_def name)
  from BuilderConfigFromFlags_load_trace[of env flags baseImage s] obtain evs where
    "trace (snd (BuilderConfigFromFlags_load env flags baseImage s)) = trace s @ evs"
    "filter is_PullImageCall evs = []" by blast
  with eq False show ?thesis by (simp add: events_since_def)
next
  case True
  let ?s0 = "println env [''Pulling builder base image '', baseImage] s"
  obtain rp s1 where p:
    "call (Docker_PullImage env baseImage) (PullImageCall baseImage) ?s0 = (rp, s1)"
    by (cases "call (Docker_PullImage env baseImage) (PullImageCall baseImage) ?s0")
  have rp: "rp = fst (Docker_PullImage env baseImage (world ?s0))"
    using p by (auto simp: call_def split: prod.splits)
  have t1: "trace s1 = trace s @ [PrintlnCall [''Pulling builder base image '', baseImage],
                                  PullImageCall baseImage rp]"
    using call_trace[OF p] by (simp add: println_trace)
  show ?thesis
  proof (cases rp)
    case (Some e)
    with True p have "snd (BuilderConfigFromFlags env flags s) = s1"
      by (simp add: BuilderConfigFromFlags_def name)
    with t1 True rp show ?thesis by (simp add: events_since_def)
  next
    case None
    with True p have eq: "BuilderConfigFromFlags env flags s
                   = BuilderConfigFromFlags_load env flags baseImage s1"
      by (simp add: BuilderConfigFromFlags_def name)
    from BuilderConfigFromFlags_load_trace[of env flags baseImage s1] obtain evs where
      "trace (snd (BuilderConfigFromFlags_load env flags baseImage s1)) = trace s1 @ evs"
      "filter is_PullImageCall evs = []" by blast
    with eq t1 True rp show ?thesis by (simp add: events_since_def)
  qed
qed

text \<open>
  C7, as stated, fails for flags whose stack does not resolve to a base image: with
  \<^verbatim>\<open>NoPull\<close> and \<^verbatim>\<open>Publish\<close> both false and an unknown \<^verbatim>\<open>StackID\<close>,
  \<^verbatim>\<open>BuilderConfigFromFlags\<close> returns the error of \<^verbatim>\<open>baseImageName\<close> (line 84) and
  never calls \<^verbatim>\<open>PullImage\<close>.
\<close>

theorem BuilderConfigFromFlags_unknown_stack_no_pull:
  "\<not> NoPull demo_flags_unknown_stack \<and> \<not> Publish demo_flags_unknown_stack
   \<and> BuilderConfigFromFlags demo_env demo_flags_unknown_stack demo_start
     = (Inl ''stack not found'', demo_start)
   \<and> filter is_PullImageCall
        (trace (snd (BuilderConfigFromFlags demo_env demo_flags_unknown_stack demo_start)))
     = []"
proof -
  have n: "baseImageName demo_env (StackID demo_flags_unknown_stack)
             (CreateBuilderFlags.RepoName demo_flags_unknown_stack) = Inl ''stack not found''"
    by (simp add: baseImageName_def demo_env_def demo_flags_unknown_stack_def demo_flags_def)
  have r: "BuilderConfigFromFlags demo_env demo_flags_unknown_stack demo_start
             = (Inl ''stack not found'', demo_start)"
    by (simp add: BuilderConfigFromFlags_def n)
  have f: "\<not> NoPull demo_flags_unknown_stack \<and> \<not> Publish demo_flags_unknown_stack"
    by (simp add: demo_flags_unknown_stack_def demo_flags_def)
  from r f show ?thesis by (simp add: demo_start_def)
qed

text \<open>
  C7, amended. For every flags value for which \<^verbatim>\<open>baseImageName\<close> returns a base
  image, \<^verbatim>\<open>BuilderConfigFromFlags\<close> calls \<^verbatim>\<open>PullImage\<close> (once, on that image) if and
  only if \<^verbatim>\<open>NoPull\<close> is false and \<^verbatim>\<open>Publish\<close> is false; in no-pull or publish mode
  \<^verbatim>\<open>PullImage\<close> is never called.
\<close>

theorem BuilderConfigFromFlags_pull_iff:
  fixes s :: "('w, ('img, 'repo) event) machine"
  assumes name: "baseImageName env (StackID flags) (CreateBuilderFlags.RepoName flags)
                   = Inr baseImage"
  shows "((\<exists>r. filter is_PullImageCall
                 (events_since s (snd (BuilderConfigFromFlags env flags s)))
               = [PullImageCall baseImage r])
          \<longleftrightarrow> \<not> NoPull flags \<and> \<not> Publish flags)
       \<and> (NoPull flags \<or> Publish flags \<longrightarrow>
            filter is_PullImageCall
              (events_since s (snd (BuilderConfigFromFlags env flags s))) = [])"
  unfolding BuilderConfigFromFlags_pulls[OF name] by auto

theorem BuilderConfigFromFlags_pull_iff_witness:
  "(\<exists>r. filter is_PullImageCall
     (events_since demo_start (snd (BuilderConfigFromFlags demo_env demo_flags demo_start)))
     = [PullImageCall ''packs/build'' r])
   \<and> filter is_PullImageCall
        (events_since demo_start
           (snd (BuilderConfigFromFlags demo_env (demo_flags\<lparr>NoPull := True\<rparr>) demo_start)))
     = []"
proof -
  have name: "baseImageName demo_env (StackID demo_flags) (CreateBuilderFlags.RepoName demo_flags)
                = Inr ''packs/build''"
    by (simp add: baseImageName_def demo_env_def demo_flags_def)
  have name2: "baseImageName demo_env (StackID (demo_flags\<lparr>NoPull := True\<rparr>))
                 (CreateBuilderFlags.RepoName (demo_flags\<lparr>NoPull := True\<rparr>))
                = Inr ''packs/build''"
    by (simp add: baseImageName_def demo_env_def demo_flags_def)
  have f: "\<not> NoPull demo_flags \<and> \<not> Publish demo_flags"
    by (simp add: demo_flags_def)
  have f2: "NoPull (demo_flags\<lparr>NoPull := True\<rparr>) \<or> Publish (demo_flags\<lparr>NoPull := True\<rparr>)"
    by simp
  from BuilderConfigFromFlags_pull_iff[OF name, of demo_start] f
  have 1: "\<exists>r. filter is_PullImageCall
     (events_since demo_start (snd (BuilderConfigFromFlags demo_env demo_flags demo_start)))
     = [PullImageCall ''packs/build'' r]"
    by blast
  from BuilderConfigFromFlags_pull_iff[OF name2, of demo_start] f2
  have 2: "filter is_PullImageCall
        (events_since demo_start
           (snd (BuilderConfigFromFlags demo_env (demo_flags\<lparr>NoPull := True\<rparr>) demo_start)))
     = []"
    by blast
  from 1 2 show ?thesis by blast
qed

section \<open>orderLayer: the bytes of the manifest\<close>

text \<open>
  C8. Two successful runs of \<^verbatim>\<open>orderLayer\<close> on the same groups, from any two states
  of the outside world and into any two directories, write the same bytes to
  order.toml: each run makes exactly one write, of the serialisation of
  \<^verbatim>\<open>order{Groups: groups}\<close>, into which neither the directory nor the state enters.
\<close>

theorem orderLayer_manifest_deterministic:
  fixes s1 s2 :: "('w, ('img, 'repo) event) machine"
  assumes r1: "orderLayer env dest1 groups s1 = (Inr tar1, s1')"
      and r2: "orderLayer env dest2 groups s2 = (Inr tar2, s2')"
  shows "written_bytes (events_since s1 s1') = written_bytes (events_since s2 s2')
       \<and> (\<exists>bytes. toml_Marshal env groups = Inr bytes
                  \<and> written_bytes (events_since s1 s1') = [bytes])"
proof -
  from orderLayer_trace[OF r1] obtain e1 b1 where
    1: "trace s1' = trace s1 @ e1" "toml_Marshal env groups = Inr b1" "written_bytes e1 = [b1]"
    by auto
  from orderLayer_trace[OF r2] obtain e2 b2 where
    2: "trace s2' = trace s2 @ e2" "toml_Marshal env groups = Inr b2" "written_bytes e2 = [b2]"
    by auto
  from 1(2) 2(2) have "b1 = b2" by simp
  with 1 2 show ?thesis by (simp add: events_since_app)
qed

theorem orderLayer_manifest_deterministic_witness:
  "written_bytes (events_since demo_start
      (snd (orderLayer demo_env ''/tmp/a'' [[''java'']] demo_start)))
   = written_bytes (events_since (demo_start\<lparr>trace := [PrintlnCall [''earlier run'']]\<rparr>)
      (snd (orderLayer demo_env ''/tmp/b'' [[''java'']]
              (demo_start\<lparr>trace := [PrintlnCall [''earlier run'']]\<rparr>))))
   \<and> written_bytes (events_since demo_start
      (snd (orderLayer demo_env ''/tmp/a'' [[''java'']] demo_start))) = [''java'']"
proof -
  let ?s2 = "demo_start\<lparr>trace := [PrintlnCall [''earlier run'']]\<rparr>"
  have r1: "orderLayer demo_env ''/tmp/a'' [[''java'']] demo_start
              = (Inr ''/tmp/a/order.tar'',
                 snd (orderLayer demo_env ''/tmp/a'' [[''java'']] demo_start))"
    by (simp add: run_defs demo_defs)
  have r2: "orderLayer demo_env ''/tmp/b'' [[''java'']] ?s2
              = (Inr ''/tmp/b/order.tar'',
                 snd (orderLayer demo_env ''/tmp/b'' [[''java'']] ?s2))"
    by (simp add: run_defs demo_defs)
  have m: "toml_Marshal demo_env [[''java'']] = Inr ''java''"
    by (simp add: demo_env_def)
  from orderLayer_manifest_deterministic[OF r1 r2] m
  show ?thesis by auto
qed

end
